theory Spec2Isabelle
  imports Main "HOL-Library.Sublist" "HOL-Library.Char_ord" "HOL-Library.List_Lexorder"
begin

section \<open>Python exceptions and classes\<close>

text \<open>
  A raised exception is a value: the name of its class, the names of the classes it
  inherits from (what \<^verbatim>\<open>except C\<close> and \<^verbatim>\<open>isinstance\<close> look at), its message and the
  exception it was raised \<^verbatim>\<open>from\<close>. A failing call returns \<open>Inl\<close> of such a value.
\<close>

datatype py_exc =
  PyExc (exc_type: string) (exc_bases: "string list") (exc_msg: string)
    (exc_cause: "py_exc option")

definition isinstance_exc :: "py_exc \<Rightarrow> string \<Rightarrow> bool" where
  "isinstance_exc e c = (c = exc_type e \<or> c \<in> set (exc_bases e))"

definition AttributeError :: "string \<Rightarrow> py_exc" where
  "AttributeError msg =
     PyExc ''AttributeError'' [''Exception'', ''BaseException''] msg None"

definition TypeError :: "string \<Rightarrow> py_exc" where
  "TypeError msg = PyExc ''TypeError'' [''Exception'', ''BaseException''] msg None"

text \<open>\<^verbatim>\<open>kedro.io.core.DatasetError\<close>, a direct subclass of \<^verbatim>\<open>Exception\<close>.\<close>

definition DatasetError :: "string \<Rightarrow> py_exc option \<Rightarrow> py_exc" where
  "DatasetError msg cause =
     PyExc ''DatasetError'' [''Exception'', ''BaseException''] msg cause"

text \<open>
  A class is known by its module and its qualified name. \<open>str_class\<close> is what
  \<^verbatim>\<open>str(cls)\<close> gives for a class whose metaclass is \<^verbatim>\<open>type\<close>:
  \<^verbatim>\<open><class 'module.QualName'>\<close>, the module left out for builtins.
\<close>

record py_class =
  cls_module :: string
  cls_qualname :: string

definition str_class :: "py_class \<Rightarrow> string" where
  "str_class c =
     (if cls_module c = ''builtins''
      then ''<class '' @ [CHR 0x27] @ cls_qualname c @ [CHR 0x27] @ ''>''
      else ''<class '' @ [CHR 0x27] @ cls_module c @ ''.'' @ cls_qualname c
             @ [CHR 0x27] @ ''>'')"

section \<open>The manager and its shared containers\<close>

text \<open>
  A \<^verbatim>\<open>SyncManager\<close> is known by its identity. A handle is the proxy object that
  \<^verbatim>\<open>manager.MemoryDataset()\<close> returns for a container hosted by the manager. The world
  records how many containers have been created and every call that crossed the
  process boundary, oldest first.
\<close>

type_synonym manager = nat

datatype handle = Handle (h_manager: manager) (h_index: nat)

datatype 'a remote_call =
  CallCreate manager
| CallLoad handle
| CallSave handle 'a

record 'a world =
  created :: nat
  calls :: "'a remote_call list"

text \<open>
  What the code cannot decide is a parameter: whether the manager answers a request,
  what the hosted container answers to \<^verbatim>\<open>load\<close> and \<^verbatim>\<open>save\<close> (both may depend on
  everything that happened before), attribute lookup on the bound object, and for an
  artifact \<^verbatim>\<open>data\<close> the outcome of \<^verbatim>\<open>pickle.dumps(data)\<close> and its class
  \<^verbatim>\<open>data.__class__\<close>.
\<close>

record ('a, 'v) shm_env =
  create_fault :: "'a world \<Rightarrow> manager \<Rightarrow> py_exc option"
  remote_load :: "'a world \<Rightarrow> handle \<Rightarrow> py_exc + 'a"
  remote_save :: "'a world \<Rightarrow> handle \<Rightarrow> 'a \<Rightarrow> py_exc option"
  target_getattr :: "handle option \<Rightarrow> string \<Rightarrow> py_exc + 'v"
  pickle_dumps :: "'a \<Rightarrow> py_exc + string"
  class_of :: "'a \<Rightarrow> py_class"

text \<open>
  Modelled from the spec: the remote-container-hosting capability
  \<^verbatim>\<open>create_container() -> RemoteHandle\<close> behind \<^verbatim>\<open>manager.MemoryDataset()\<close>, which
  is not part of the source. Every request is a remote call; one that is answered
  yields a new container, numbered by the count of containers created so far.
\<close>

definition manager_MemoryDataset ::
  "('a, 'v) shm_env \<Rightarrow> manager \<Rightarrow> 'a world \<Rightarrow> (py_exc + handle) \<times> 'a world" where
  "manager_MemoryDataset env m w =
     (let w' = w\<lparr>calls := calls w @ [CallCreate m]\<rparr> in
      case create_fault env w m of
        Some e \<Rightarrow> (Inl e, w')
      | None \<Rightarrow> (Inr (Handle m (created w)), w'\<lparr>created := Suc (created w)\<rparr>))"

section \<open>SharedMemoryDataset\<close>

text \<open>
  The instance attributes set by \<^verbatim>\<open>__init__\<close>; \<open>None\<close> in
  \<open>shared_memory_dataset\<close> is Python's \<^verbatim>\<open>None\<close>.
\<close>

record SharedMemoryDataset =
  EPHEMERAL :: bool
  shared_memory_dataset :: "handle option"

text \<open>
  \<^verbatim>\<open>__init__(self, manager=None)\<close>. A \<^verbatim>\<open>SyncManager\<close> object is always truthy, so
  \<^verbatim>\<open>if manager\<close> tests for \<^verbatim>\<open>None\<close>.
\<close>

definition SharedMemoryDataset_init ::
  "('a, 'v) shm_env \<Rightarrow> manager option \<Rightarrow> 'a world
     \<Rightarrow> (py_exc + SharedMemoryDataset) \<times> 'a world" where
  "SharedMemoryDataset_init env manager w =
     (case manager of
        Some m \<Rightarrow>
          (case manager_MemoryDataset env m w of
             (Inl e, w') \<Rightarrow> (Inl e, w')
           | (Inr h, w') \<Rightarrow>
               (Inr \<lparr>EPHEMERAL = True, shared_memory_dataset = Some h\<rparr>, w'))
      | None \<Rightarrow> (Inr \<lparr>EPHEMERAL = True, shared_memory_dataset = None\<rparr>, w))"

text \<open>
  \<^verbatim>\<open>set_manager(self, manager)\<close>: returns the error if the request raised, the
  instance after the call, and the world.
\<close>

definition set_manager ::
  "('a, 'v) shm_env \<Rightarrow> SharedMemoryDataset \<Rightarrow> manager \<Rightarrow> 'a world
     \<Rightarrow> py_exc option \<times> SharedMemoryDataset \<times> 'a world" where
  "set_manager env self m w =
     (case manager_MemoryDataset env m w of
        (Inl e, w') \<Rightarrow> (Some e, self, w')
      | (Inr h, w') \<Rightarrow> (None, self\<lparr>shared_memory_dataset := Some h\<rparr>, w'))"

text \<open>
  \<^verbatim>\<open>__getattr__(self, name)\<close>, which Python calls for a name that normal lookup
  does not find on the instance or its class.
\<close>

definition getattr_dunder ::
  "('a, 'v) shm_env \<Rightarrow> SharedMemoryDataset \<Rightarrow> string \<Rightarrow> py_exc + 'v" where
  "getattr_dunder env self name =
     (if name = ''__setstate__'' then Inl (AttributeError [])
      else target_getattr env (shared_memory_dataset self) name)"

text \<open>
  Calling a method of \<^verbatim>\<open>self.shared_memory_dataset\<close>: on \<^verbatim>\<open>None\<close> the attribute
  lookup raises and nothing leaves the process; on a handle the call goes to the
  hosted container and is recorded.
\<close>

definition NoneType_has_no_attribute :: "string \<Rightarrow> py_exc" where
  "NoneType_has_no_attribute name =
     AttributeError ([CHR 0x27] @ ''NoneType'' @ [CHR 0x27] @ '' object has no attribute ''
                       @ [CHR 0x27] @ name @ [CHR 0x27])"

definition container_load ::
  "('a, 'v) shm_env \<Rightarrow> SharedMemoryDataset \<Rightarrow> 'a world \<Rightarrow> (py_exc + 'a) \<times> 'a world" where
  "container_load env self w =
     (case shared_memory_dataset self of
        None \<Rightarrow> (Inl (NoneType_has_no_attribute ''load''), w)
      | Some h \<Rightarrow> (remote_load env w h, w\<lparr>calls := calls w @ [CallLoad h]\<rparr>))"

definition container_save ::
  "('a, 'v) shm_env \<Rightarrow> SharedMemoryDataset \<Rightarrow> 'a \<Rightarrow> 'a world
     \<Rightarrow> py_exc option \<times> 'a world" where
  "container_save env self data w =
     (case shared_memory_dataset self of
        None \<Rightarrow> (Some (NoneType_has_no_attribute ''save''), w)
      | Some h \<Rightarrow> (remote_save env w h data, w\<lparr>calls := calls w @ [CallSave h data]\<rparr>))"

text \<open>\<^verbatim>\<open>_load(self)\<close>, also bound as \<^verbatim>\<open>load\<close>.\<close>

definition SharedMemoryDataset_load ::
  "('a, 'v) shm_env \<Rightarrow> SharedMemoryDataset \<Rightarrow> 'a world \<Rightarrow> (py_exc + 'a) \<times> 'a world" where
  "SharedMemoryDataset_load env self w = container_load env self w"

text \<open>The message of the error raised for data that cannot be pickled.\<close>

definition cannot_be_serialised :: "py_class \<Rightarrow> string" where
  "cannot_be_serialised c =
     str_class c @ '' cannot be serialised. ParallelRunner ''
       @ ''implicit memory datasets can only be used with serialisable data''"

text \<open>
  \<^verbatim>\<open>_save(self, data)\<close>, also bound as \<^verbatim>\<open>save\<close>. \<^verbatim>\<open>except Exception\<close> lets an
  exception that is not an \<^verbatim>\<open>Exception\<close> (\<^verbatim>\<open>KeyboardInterrupt\<close>, \<^verbatim>\<open>SystemExit\<close>)
  pass, at both levels.
\<close>

definition SharedMemoryDataset_save ::
  "('a, 'v) shm_env \<Rightarrow> SharedMemoryDataset \<Rightarrow> 'a \<Rightarrow> 'a world
     \<Rightarrow> py_exc option \<times> 'a world" where
  "SharedMemoryDataset_save env self data w =
     (case container_save env self data w of
        (None, w') \<Rightarrow> (None, w')
      | (Some exc, w') \<Rightarrow>
          if isinstance_exc exc ''Exception'' then
            (case pickle_dumps env data of
               Inl serialisation_exc \<Rightarrow>
                 if isinstance_exc serialisation_exc ''Exception''
                 then (Some (DatasetError (cannot_be_serialised (class_of env data))
                               (Some serialisation_exc)), w')
                 else (Some serialisation_exc, w')
             | Inr pickled \<Rightarrow> (Some exc, w'))
          else (Some exc, w'))"

text \<open>\<^verbatim>\<open>_describe(self)\<close>: the empty dict.\<close>

definition SharedMemoryDataset_describe :: "SharedMemoryDataset \<Rightarrow> (string \<rightharpoonup> 'v)" where
  "SharedMemoryDataset_describe self = Map.empty"

text \<open>
  A bound handle is live when the container it names has been created: the invariant
  that construction establishes and every method keeps.
\<close>

definition bound_in :: "SharedMemoryDataset \<Rightarrow> 'a world \<Rightarrow> bool" where
  "bound_in self w =
     (case shared_memory_dataset self of
        None \<Rightarrow> True
      | Some h \<Rightarrow> h_index h < created w)"

subsection \<open>A session to run the definitions on\<close>

text \<open>
  Three artifacts: a frame that the container accepts, a socket that cannot be
  pickled (the transfer fails and so does the dry run), and a table that pickles but
  whose transfer is cut by the channel. Containers are empty when loaded.
\<close>

datatype example_artifact = Frame | Socket | Table

definition cannot_pickle_socket :: py_exc where
  "cannot_pickle_socket =
     TypeError (''cannot pickle '' @ [CHR 0x27] @ ''Socket'' @ [CHR 0x27] @ '' object'')"

definition connection_reset :: py_exc where
  "connection_reset =
     PyExc ''ConnectionResetError''
       [''ConnectionError'', ''OSError'', ''Exception'', ''BaseException'']
       ''[Errno 104] Connection reset by peer'' None"

definition example_env :: "(example_artifact, string) shm_env" where
  "example_env =
     \<lparr>create_fault = (\<lambda>w m. None),
      remote_load = (\<lambda>w h.
        Inl (DatasetError ''Data for MemoryDataset has not been saved yet.'' None)),
      remote_save = (\<lambda>w h d.
        case d of Frame \<Rightarrow> None
        | Socket \<Rightarrow> Some cannot_pickle_socket
        | Table \<Rightarrow> Some connection_reset),
      target_getattr = (\<lambda>t name.
        case t of None \<Rightarrow> Inl (NoneType_has_no_attribute name)
        | Some h \<Rightarrow> Inr (''MemoryDataset.'' @ name)),
      pickle_dumps = (\<lambda>d.
        case d of Frame \<Rightarrow> Inr ''frame bytes''
        | Socket \<Rightarrow> Inl cannot_pickle_socket
        | Table \<Rightarrow> Inr ''table bytes''),
      class_of = (\<lambda>d.
        case d of Frame \<Rightarrow> \<lparr>cls_module = ''pandas'', cls_qualname = ''DataFrame''\<rparr>
        | Socket \<Rightarrow> \<lparr>cls_module = ''network'', cls_qualname = ''Socket''\<rparr>
        | Table \<Rightarrow> \<lparr>cls_module = ''builtins'', cls_qualname = ''dict''\<rparr>)\<rparr>"

definition world0 :: "example_artifact world" where
  "world0 = \<lparr>created = 0, calls = []\<rparr>"

definition unbound_proxy :: SharedMemoryDataset where
  "unbound_proxy = \<lparr>EPHEMERAL = True, shared_memory_dataset = None\<rparr>"

definition bound_proxy :: SharedMemoryDataset where
  "bound_proxy = \<lparr>EPHEMERAL = True, shared_memory_dataset = Some (Handle 7 0)\<rparr>"

definition world1 :: "example_artifact world" where
  "world1 = \<lparr>created = 1, calls = [CallCreate 7]\<rparr>"

section \<open>Paths and the local file system\<close>

text \<open>
  A \<^verbatim>\<open>pathlib\<close> path after parsing: whether it starts at the root, and its
  components. Symbolic links and the components \<^verbatim>\<open>..\<close> are not interpreted.
\<close>

datatype path = Path (anchored: bool) (parts: "string list")

text \<open>\<^verbatim>\<open>p.parent\<close>; the root and the empty relative path are their own parents.\<close>

definition parent :: "path \<Rightarrow> path" where
  "parent p = Path (anchored p) (butlast (parts p))"

text \<open>\<^verbatim>\<open>p.name\<close>: the last component, empty when there is none.\<close>

definition name_of :: "path \<Rightarrow> string" where
  "name_of p = (case rev (parts p) of [] \<Rightarrow> [] | n # ns \<Rightarrow> n)"

text \<open>\<^verbatim>\<open>p / s\<close> for a single relative component \<open>s\<close>; an empty \<open>s\<close> adds nothing.\<close>

definition joinpath :: "path \<Rightarrow> string \<Rightarrow> path" where
  "joinpath p s = (if s = [] then p else Path (anchored p) (parts p @ [s]))"

text \<open>\<^verbatim>\<open>p.absolute()\<close> in the working directory \<open>wd\<close>: no normalisation.\<close>

definition absolute :: "string list \<Rightarrow> path \<Rightarrow> path" where
  "absolute wd p = (if anchored p then p else Path True (wd @ parts p))"

text \<open>
  The file system is a table from absolute locations (component lists) to nodes, the
  newest entry first; the root is always a directory. A regular file carries its
  content.
\<close>

datatype 'c node = Dir | File 'c

type_synonym 'c fs = "(string list \<times> 'c node) list"

definition node_at :: "'c fs \<Rightarrow> string list \<Rightarrow> 'c node option" where
  "node_at fs k = (if k = [] then Some Dir else map_of fs k)"

definition fs_key :: "string list \<Rightarrow> path \<Rightarrow> string list" where
  "fs_key wd p = parts (absolute wd p)"

definition is_dir :: "'c fs \<Rightarrow> string list \<Rightarrow> path \<Rightarrow> bool" where
  "is_dir fs wd p = (case node_at fs (fs_key wd p) of Some Dir \<Rightarrow> True | _ \<Rightarrow> False)"

definition is_file :: "'c fs \<Rightarrow> string list \<Rightarrow> path \<Rightarrow> bool" where
  "is_file fs wd p = (case node_at fs (fs_key wd p) of Some (File c) \<Rightarrow> True | _ \<Rightarrow> False)"

text \<open>Every entry of a well-formed table lies in a directory.\<close>

definition fs_ok :: "'c fs \<Rightarrow> bool" where
  "fs_ok fs = list_all (\<lambda>(k, n). node_at fs (butlast k) = Some Dir) fs"

definition OSError_of :: "string \<Rightarrow> py_exc" where
  "OSError_of cls = PyExc cls [''OSError'', ''Exception'', ''BaseException''] [] None"

text \<open>
  \<^verbatim>\<open>os.mkdir\<close> at a location: the entry must not exist and its parent must be a
  directory. Permissions are not modelled.
\<close>

definition os_mkdir :: "'c fs \<Rightarrow> string list \<Rightarrow> py_exc + 'c fs" where
  "os_mkdir fs k =
     (case node_at fs k of
        Some n \<Rightarrow> Inl (OSError_of ''FileExistsError'')
      | None \<Rightarrow>
          (case node_at fs (butlast k) of
             None \<Rightarrow> Inl (OSError_of ''FileNotFoundError'')
           | Some (File c) \<Rightarrow> Inl (OSError_of ''NotADirectoryError'')
           | Some Dir \<Rightarrow> Inr ((k, Dir) # fs)))"

text \<open>
  \<^verbatim>\<open>Path.mkdir(self, parents, exist_ok)\<close> of the standard library, returning the
  error if one was raised and the file system it leaves:
  \<^verbatim>\<open>
  try:
      os.mkdir(self)
  except FileNotFoundError:
      if not parents or self.parent == self:
          raise
      self.parent.mkdir(parents=True, exist_ok=True)
      self.mkdir(parents=False, exist_ok=exist_ok)
  except OSError:
      if not exist_ok or not self.is_dir():
          raise
  \<close>
\<close>

function Path_mkdir ::
  "'c fs \<Rightarrow> string list \<Rightarrow> path \<Rightarrow> bool \<Rightarrow> bool \<Rightarrow> py_exc option \<times> 'c fs" where
  "Path_mkdir fs wd p parents exist_ok =
     (case os_mkdir fs (fs_key wd p) of
        Inr fs' \<Rightarrow> (None, fs')
      | Inl e \<Rightarrow>
          if isinstance_exc e ''FileNotFoundError'' then
            (if \<not> parents \<or> parent p = p then (Some e, fs)
             else (case Path_mkdir fs wd (parent p) True True of
                     (Some e', fs') \<Rightarrow> (Some e', fs')
                   | (None, fs') \<Rightarrow> Path_mkdir fs' wd p False exist_ok))
          else if isinstance_exc e ''OSError'' then
            (if \<not> exist_ok \<or> \<not> is_dir fs wd p then (Some e, fs) else (None, fs))
          else (Some e, fs))"
  by pat_completeness auto
termination
proof (relation "measure (\<lambda>(fs, wd, p, parents, exist_ok).
    2 * length (parts p) + (if parents then 1 else 0))", goal_cases)
  case 1
  show ?case
    by simp
next
  case (2 fs wd p parents exist_ok e)
  then have "parts p \<noteq> []" and parents
    by (cases p, auto simp: parent_def)+
  then show ?case
    by (cases "parts p" rule: rev_cases) (auto simp: parent_def)
next
  case 3
  then show ?case
    by simp
qed

declare Path_mkdir.simps [simp del]

text \<open>
  The machine: its files, the working directory of the process and the time stamp
  the clock would give now.
\<close>

record 'c system =
  files :: "'c fs"
  cwd :: "string list"
  clock :: string

section \<open>HDFLocalDataSet\<close>

text \<open>\<^verbatim>\<open>kedro.io.core.Version\<close>: the pair of an optional load and save version.\<close>

record version =
  load_version :: "string option"
  save_version :: "string option"

text \<open>
  The instance attributes: those set by the base class (\<^verbatim>\<open>_filepath\<close>,
  \<^verbatim>\<open>_version\<close> and the save version it generates once) and those set by
  \<^verbatim>\<open>HDFLocalDataSet.__init__\<close>. A dict of keyword options is a map from names.
\<close>

record 'v HDFLocalDataSet =
  filepath :: path
  version :: "version option"
  generated_save_version :: "string option"
  key :: string
  load_args :: "string \<rightharpoonup> 'v"
  save_args :: "string \<rightharpoonup> 'v"

text \<open>
  \<^verbatim>\<open>__init__(self, filepath, key, load_args=None, save_args=None, version=None)\<close>;
  \<open>fp\<close> is \<^verbatim>\<open>Path(filepath)\<close>. \<^verbatim>\<open>{**a, **b}\<close> is \<open>a ++ b\<close>. The save options
  are merged into \<^verbatim>\<open>default_load_args\<close>, as the source has it.
\<close>

definition HDFLocalDataSet_init ::
  "path \<Rightarrow> string \<Rightarrow> (string \<rightharpoonup> 'v) option \<Rightarrow> (string \<rightharpoonup> 'v) option
     \<Rightarrow> version option \<Rightarrow> 'v HDFLocalDataSet" where
  "HDFLocalDataSet_init fp k la sa v =
     (let default_load_args = Map.empty; default_save_args = Map.empty in
      \<lparr>filepath = fp, version = v, generated_save_version = None, key = k,
       load_args = (case la of Some a \<Rightarrow> default_load_args ++ a
                    | None \<Rightarrow> default_load_args),
       save_args = (case sa of Some a \<Rightarrow> default_load_args ++ a
                    | None \<Rightarrow> default_save_args)\<rparr>)"

subsection \<open>Path resolution of the base class\<close>

text \<open>
  Modelled from the spec: the concrete location of a version,
  \<^verbatim>\<open>base_path/version/filename\<close>, the time stamp inserted as a path segment.
\<close>

definition versioned_path :: "path \<Rightarrow> string \<Rightarrow> path" where
  "versioned_path base v = joinpath (joinpath base v) (name_of base)"

definition pinned_load_version :: "'v HDFLocalDataSet \<Rightarrow> string option" where
  "pinned_load_version self =
     (case version self of None \<Rightarrow> None | Some v \<Rightarrow> load_version v)"

definition pinned_save_version :: "'v HDFLocalDataSet \<Rightarrow> string option" where
  "pinned_save_version self =
     (case version self of None \<Rightarrow> None | Some v \<Rightarrow> save_version v)"

text \<open>
  Modelled from the spec: the existing versions under the base location, those \<open>v\<close>
  with an entry under the base for which an artifact exists at the location of
  version \<open>v\<close>.
\<close>

definition existing_versions :: "'c system \<Rightarrow> path \<Rightarrow> string list" where
  "existing_versions st base =
     (let b = fs_key (cwd st) base in
      filter (\<lambda>v. node_at (files st) (fs_key (cwd st) (versioned_path base v)) \<noteq> None)
        (map (\<lambda>k. k ! length b)
          (filter (\<lambda>k. length b < length k \<and> take (length b) k = b)
            (map fst (files st)))))"

text \<open>
  The error of a failed resolution is the spec's \<^verbatim>\<open>NotFoundError\<close>. The source
  catches it as a \<^verbatim>\<open>DataSetError\<close>, so that is one of its base classes.
\<close>

definition NotFoundError :: py_exc where
  "NotFoundError =
     PyExc ''NotFoundError'' [''DataSetError'', ''Exception'', ''BaseException''] [] None"

definition ConsistencyError :: py_exc where
  "ConsistencyError =
     PyExc ''ConsistencyError'' [''DataSetError'', ''Exception'', ''BaseException''] [] None"

text \<open>
  Modelled from the spec: \<^verbatim>\<open>resolve_load_path\<close>, the \<^verbatim>\<open>_get_load_path\<close> of the
  base class. A pinned load version resolves to exactly that version and fails when no
  artifact exists there; otherwise the greatest existing version in lexicographic
  order is taken, and resolution fails when there is none.
\<close>

definition get_load_path :: "'v HDFLocalDataSet \<Rightarrow> 'c system \<Rightarrow> py_exc + path" where
  "get_load_path self st =
     (case pinned_load_version self of
        Some v \<Rightarrow>
          if node_at (files st) (fs_key (cwd st) (versioned_path (filepath self) v)) \<noteq> None
          then Inr (versioned_path (filepath self) v)
          else Inl NotFoundError
      | None \<Rightarrow>
          (case existing_versions st (filepath self) of
             [] \<Rightarrow> Inl NotFoundError
           | v # vs \<Rightarrow> Inr (versioned_path (filepath self) (fold max vs v))))"

text \<open>
  Modelled from the spec: \<^verbatim>\<open>resolve_save_path\<close>, the \<^verbatim>\<open>_get_save_path\<close> of the
  base class. Without a pinned save version one time stamp is generated on first need
  and kept by the instance, which is returned; existing content is not checked.
\<close>

definition get_save_path ::
  "'v HDFLocalDataSet \<Rightarrow> 'c system \<Rightarrow> path \<times> 'v HDFLocalDataSet" where
  "get_save_path self st =
     (case pinned_save_version self of
        Some v \<Rightarrow> (versioned_path (filepath self) v, self)
      | None \<Rightarrow>
          (case generated_save_version self of
             Some g \<Rightarrow> (versioned_path (filepath self) g, self)
           | None \<Rightarrow>
               (versioned_path (filepath self) (clock st),
                self\<lparr>generated_save_version := Some (clock st)\<rparr>)))"

text \<open>
  Modelled from the spec: \<^verbatim>\<open>check_consistency(load_path, save_path)\<close>, the
  \<^verbatim>\<open>_check_paths_consistency\<close> of the base class: skipped when a load version is
  pinned, otherwise an error when the two paths differ.
\<close>

definition check_paths_consistency ::
  "'v HDFLocalDataSet \<Rightarrow> path \<Rightarrow> path \<Rightarrow> py_exc option" where
  "check_paths_consistency self load_path save_path =
     (if pinned_load_version self = None \<and> load_path \<noteq> save_path
      then Some ConsistencyError else None)"

subsection \<open>The methods of HDFLocalDataSet\<close>

text \<open>
  The format adapter is a parameter: \<^verbatim>\<open>pd.read_hdf\<close>, \<^verbatim>\<open>DataFrame.to_hdf\<close> (which
  leaves a file system behind also when it raises) and the keys of the store that
  \<^verbatim>\<open>HDFStore(path, mode="r")\<close> opens, or the error of opening it.
\<close>

record ('c, 'd, 'v) hdf_env =
  read_hdf :: "'c system \<Rightarrow> path \<Rightarrow> string \<Rightarrow> (string \<rightharpoonup> 'v) \<Rightarrow> py_exc + 'd"
  to_hdf :: "'c system \<Rightarrow> 'd \<Rightarrow> path \<Rightarrow> string \<Rightarrow> (string \<rightharpoonup> 'v)
               \<Rightarrow> py_exc option \<times> 'c fs"
  HDFStore_keys :: "'c system \<Rightarrow> path \<Rightarrow> py_exc + string list"

text \<open>
  A call \<^verbatim>\<open>f(x, key=k, **kwargs)\<close>: when \<^verbatim>\<open>kwargs\<close> has the name \<^verbatim>\<open>key\<close> too,
  Python raises TypeError and \<^verbatim>\<open>f\<close> is not entered.
\<close>

definition multiple_values_for_key :: "string \<Rightarrow> py_exc" where
  "multiple_values_for_key f =
     TypeError (f @ ''() got multiple values for keyword argument ''
                  @ [CHR 0x27] @ ''key'' @ [CHR 0x27])"

definition call_read_hdf ::
  "('c, 'd, 'v) hdf_env \<Rightarrow> 'c system \<Rightarrow> path \<Rightarrow> string \<Rightarrow> (string \<rightharpoonup> 'v)
     \<Rightarrow> py_exc + 'd" where
  "call_read_hdf env st p k kwargs =
     (if kwargs ''key'' \<noteq> None then Inl (multiple_values_for_key ''read_hdf'')
      else read_hdf env st p k kwargs)"

definition call_to_hdf ::
  "('c, 'd, 'v) hdf_env \<Rightarrow> 'c system \<Rightarrow> 'd \<Rightarrow> path \<Rightarrow> string \<Rightarrow> (string \<rightharpoonup> 'v)
     \<Rightarrow> py_exc option \<times> 'c fs" where
  "call_to_hdf env st data p k kwargs =
     (if kwargs ''key'' \<noteq> None then (Some (multiple_values_for_key ''to_hdf''), files st)
      else to_hdf env st data p k kwargs)"

text \<open>\<^verbatim>\<open>_load(self)\<close>.\<close>

definition HDFLocalDataSet_load ::
  "('c, 'd, 'v) hdf_env \<Rightarrow> 'v HDFLocalDataSet \<Rightarrow> 'c system \<Rightarrow> py_exc + 'd" where
  "HDFLocalDataSet_load env self st =
     (case get_load_path self st of
        Inl e \<Rightarrow> Inl e
      | Inr load_path \<Rightarrow> call_read_hdf env st load_path (key self) (load_args self))"

text \<open>
  The last two lines of \<^verbatim>\<open>_save\<close>, given what \<^verbatim>\<open>to_hdf\<close> returned: the load path
  is resolved on the file system the write left, and both paths are made absolute.
\<close>

definition after_write ::
  "'v HDFLocalDataSet \<Rightarrow> 'c system \<Rightarrow> path \<Rightarrow> py_exc option \<times> 'c fs
     \<Rightarrow> py_exc option \<times> 'v HDFLocalDataSet \<times> 'c system" where
  "after_write self st save_path written =
     (case written of
        (Some e, fs2) \<Rightarrow> (Some e, self, st\<lparr>files := fs2\<rparr>)
      | (None, fs2) \<Rightarrow>
          (case get_load_path self (st\<lparr>files := fs2\<rparr>) of
             Inl e \<Rightarrow> (Some e, self, st\<lparr>files := fs2\<rparr>)
           | Inr load_path \<Rightarrow>
               (check_paths_consistency self
                  (absolute (cwd st) load_path) (absolute (cwd st) save_path),
                self, st\<lparr>files := fs2\<rparr>)))"

text \<open>
  \<^verbatim>\<open>_save(self, data)\<close>: the error if one was raised, the instance and the machine
  after the call.
\<close>

definition HDFLocalDataSet_save ::
  "('c, 'd, 'v) hdf_env \<Rightarrow> 'v HDFLocalDataSet \<Rightarrow> 'd \<Rightarrow> 'c system
     \<Rightarrow> py_exc option \<times> 'v HDFLocalDataSet \<times> 'c system" where
  "HDFLocalDataSet_save env self data st =
     (case get_save_path self st of
        (save_path, self1) \<Rightarrow>
          (case Path_mkdir (files st) (cwd st) (parent save_path) True True of
             (Some e, fs1) \<Rightarrow> (Some e, self1, st\<lparr>files := fs1\<rparr>)
           | (None, fs1) \<Rightarrow>
               after_write self1 (st\<lparr>files := fs1\<rparr>) save_path
                 (call_to_hdf env (st\<lparr>files := fs1\<rparr>) data save_path (key self1)
                    (save_args self1))))"

text \<open>\<^verbatim>\<open>key_with_slash\<close> in \<^verbatim>\<open>_exists\<close>.\<close>

definition key_with_slash :: "string \<Rightarrow> string" where
  "key_with_slash k =
     (if (case k of [] \<Rightarrow> False | c # cs \<Rightarrow> c = CHR ''/'') then k else ''/'' @ k)"

text \<open>
  \<^verbatim>\<open>_exists(self)\<close>: \<^verbatim>\<open>except DataSetError\<close> catches the instances of that class
  only.
\<close>

definition HDFLocalDataSet_exists ::
  "('c, 'd, 'v) hdf_env \<Rightarrow> 'v HDFLocalDataSet \<Rightarrow> 'c system \<Rightarrow> py_exc + bool" where
  "HDFLocalDataSet_exists env self st =
     (case get_load_path self st of
        Inl e \<Rightarrow> if isinstance_exc e ''DataSetError'' then Inr False else Inl e
      | Inr path \<Rightarrow>
          if is_file (files st) (cwd st) path then
            (case HDFStore_keys env st path of
               Inl e \<Rightarrow> Inl e
             | Inr keys \<Rightarrow>
                 if key_with_slash (key self) \<in> set keys then Inr True else Inr False)
          else Inr False)"

text \<open>
  The locations of a path and of all its ancestors, from the working directory (for
  a relative path) or the root down to the path itself.
\<close>

definition ancestor_keys :: "string list \<Rightarrow> path \<Rightarrow> string list list" where
  "ancestor_keys wd p =
     map (\<lambda>n. fs_key wd (Path (anchored p) (take n (parts p)))) [0..<Suc (length (parts p))]"

text \<open>The options a caller supplied to the constructor: none for \<^verbatim>\<open>None\<close>.\<close>

definition options_supplied :: "(string \<rightharpoonup> 'v) option \<Rightarrow> (string \<rightharpoonup> 'v)" where
  "options_supplied args = (case args of None \<Rightarrow> Map.empty | Some a \<Rightarrow> a)"

subsection \<open>A machine to run the definitions on\<close>

text \<open>
  File contents are HDF stores (keys paired with frames) or plain text, which
  \<^verbatim>\<open>HDFStore\<close> cannot open. Frames are numbers, option values are strings. The
  adapter writes a store with the one key and reads a frame back by key.
\<close>

datatype example_content = Store "(string \<times> nat) list" | Text string

definition example_hdf_env :: "(example_content, nat, string) hdf_env" where
  "example_hdf_env =
     \<lparr>read_hdf = (\<lambda>st p k kwargs.
        case node_at (files st) (fs_key (cwd st) p) of
          Some (File (Store kv)) \<Rightarrow>
            (case map_of kv (key_with_slash k) of
               Some d \<Rightarrow> Inr d
             | None \<Rightarrow> Inl (PyExc ''KeyError'' [''LookupError'', ''Exception'', ''BaseException'']
                          k None))
        | _ \<Rightarrow> Inl (OSError_of ''FileNotFoundError'')),
      to_hdf = (\<lambda>st d p k kwargs.
        (None, (fs_key (cwd st) p, File (Store [(key_with_slash k, d)])) # files st)),
      HDFStore_keys = (\<lambda>st p.
        case node_at (files st) (fs_key (cwd st) p) of
          Some (File (Store kv)) \<Rightarrow> Inr (map fst kv)
        | Some (File (Text t)) \<Rightarrow> Inl (OSError_of ''OSError'')
        | _ \<Rightarrow> Inl (OSError_of ''FileNotFoundError''))\<rparr>"

text \<open>
  The same adapter on a machine where another writer adds the version
  \<^verbatim>\<open>2019-01-02\<close> of \<^verbatim>\<open>/home/kedro/data/test.hdf\<close> while the write is under way.
\<close>

definition racing_hdf_env :: "(example_content, nat, string) hdf_env" where
  "racing_hdf_env =
     example_hdf_env
     \<lparr>to_hdf := (\<lambda>st d p k kwargs.
        (None,
         [([''home'', ''kedro'', ''data'', ''test.hdf'', ''2019-01-02'', ''test.hdf''],
             File (Store [(''/other'', 0)])),
          ([''home'', ''kedro'', ''data'', ''test.hdf'', ''2019-01-02''], Dir)]
         @ snd (to_hdf example_hdf_env st d p k kwargs)))\<rparr>"

definition machine0 :: "example_content system" where
  "machine0 =
     \<lparr>files = [([''home'', ''kedro''], Dir), ([''home''], Dir)],
      cwd = [''home'', ''kedro''],
      clock = ''2019-01-01''\<rparr>"

definition example_version :: version where
  "example_version = \<lparr>load_version = None, save_version = None\<rparr>"

definition example_ds :: "string HDFLocalDataSet" where
  "example_ds =
     HDFLocalDataSet_init (Path False [''data'', ''test.hdf'']) ''test_hdf_key''
       None None (Some example_version)"

text \<open>The location of version \<^verbatim>\<open>2019-01-01\<close> and the machine after it was saved.\<close>

definition example_save_path :: path where
  "example_save_path = Path False [''data'', ''test.hdf'', ''2019-01-01'', ''test.hdf'']"

definition example_dirs :: "example_content fs" where
  "example_dirs =
     [([''home'', ''kedro'', ''data'', ''test.hdf'', ''2019-01-01''], Dir),
      ([''home'', ''kedro'', ''data'', ''test.hdf''], Dir),
      ([''home'', ''kedro'', ''data''], Dir),
      ([''home'', ''kedro''], Dir),
      ([''home''], Dir)]"

definition machine1_files :: "example_content fs" where
  "machine1_files =
     ([''home'', ''kedro'', ''data'', ''test.hdf'', ''2019-01-01'', ''test.hdf''],
        File (Store [(''/test_hdf_key'', 42)])) # example_dirs"

definition racing_files :: "example_content fs" where
  "racing_files =
     [([''home'', ''kedro'', ''data'', ''test.hdf'', ''2019-01-02'', ''test.hdf''],
         File (Store [(''/other'', 0)])),
      ([''home'', ''kedro'', ''data'', ''test.hdf'', ''2019-01-02''], Dir)]
     @ machine1_files"

definition example_ds_saved :: "string HDFLocalDataSet" where
  "example_ds_saved = example_ds\<lparr>generated_save_version := Some ''2019-01-01''\<rparr>"

definition machine1 :: "example_content system" where
  "machine1 = machine0\<lparr>files := machine1_files\<rparr>"

text \<open>A data set whose load options name \<^verbatim>\<open>key\<close>, and one with a pinned load version.\<close>

definition key_option_ds :: "string HDFLocalDataSet" where
  "key_option_ds =
     HDFLocalDataSet_init (Path False [''data'', ''test.hdf'']) ''test_hdf_key''
       (Some [''key'' \<mapsto> ''other'']) None (Some example_version)"

definition columns_ds :: "string HDFLocalDataSet" where
  "columns_ds =
     HDFLocalDataSet_init (Path False [''data'', ''test.hdf'']) ''test_hdf_key''
       (Some [''columns'' \<mapsto> ''col1'']) (Some [''format'' \<mapsto> ''table''])
       (Some example_version)"

definition columns_ds_saved :: "string HDFLocalDataSet" where
  "columns_ds_saved = columns_ds\<lparr>generated_save_version := Some ''2019-01-01''\<rparr>"

definition pinned_ds :: "string HDFLocalDataSet" where
  "pinned_ds =
     HDFLocalDataSet_init (Path False [''data'', ''test.hdf'']) ''test_hdf_key''
       None None (Some \<lparr>load_version = Some ''2018-12-31'', save_version = None\<rparr>)"

text \<open>A machine where the newest version of the artifact is a text file.\<close>

definition machine2 :: "example_content system" where
  "machine2 =
     machine0\<lparr>files :=
       [([''home'', ''kedro'', ''data'', ''test.hdf'', ''2019-01-03'', ''test.hdf''],
           File (Text ''not a store'')),
        ([''home'', ''kedro'', ''data'', ''test.hdf'', ''2019-01-03''], Dir)]
       @ machine1_files\<rparr>"

section \<open>Properties of SharedMemoryDataset\<close>

text \<open>
  C6. Whatever state a SharedMemoryDataset is in (bound or not, whatever was loaded
  or saved through it), describing it gives the empty mapping: no key has a value.
\<close>

theorem describe_empty:
  "SharedMemoryDataset_describe self = Map.empty
   \<and> dom (SharedMemoryDataset_describe self) = {}"
  by (simp add: SharedMemoryDataset_describe_def)

lemma str_class_has_qualname: "sublist (cls_qualname c) (str_class c)"
proof (cases "cls_module c = ''builtins''")
  case True
  then have "str_class c = (''<class '' @ [CHR 0x27]) @ cls_qualname c @ ([CHR 0x27] @ ''>'')"
    by (simp add: str_class_def)
  then show ?thesis
    unfolding sublist_def by blast
next
  case False
  then have "str_class c = (''<class '' @ [CHR 0x27] @ cls_module c @ ''.'')
               @ cls_qualname c @ ([CHR 0x27] @ ''>'')"
    by (simp add: str_class_def)
  then show ?thesis
    unfolding sublist_def by blast
qed

lemma message_has_qualname: "sublist (cls_qualname c) (cannot_be_serialised c)"
proof -
  obtain ps ss where "str_class c = ps @ cls_qualname c @ ss"
    using str_class_has_qualname [of c] unfolding sublist_def by blast
  then have "cannot_be_serialised c = ps @ cls_qualname c @ (ss
      @ '' cannot be serialised. ParallelRunner ''
      @ ''implicit memory datasets can only be used with serialisable data'')"
    by (simp add: cannot_be_serialised_def)
  then show ?thesis
    unfolding sublist_def by blast
qed

lemma message_has_reason:
  "sublist ''ParallelRunner implicit memory datasets can only be used with serialisable data''
     (cannot_be_serialised c)"
proof -
  have "cannot_be_serialised c = (str_class c @ '' cannot be serialised. '')
      @ ''ParallelRunner implicit memory datasets can only be used with serialisable data''
      @ []"
    by (simp add: cannot_be_serialised_def)
  then show ?thesis
    unfolding sublist_def by blast
qed

text \<open>
  C1. When handing the artifact to the shared container raises an exception and the
  pickling dry run of the same artifact raises one too, save raises a DatasetError:
  its message is the text of the artifact's class followed by the explanation that
  ParallelRunner implicit memory datasets need serialisable data, it contains the
  class's name, and its cause is the dry run's exception. This holds for a bound
  instance and for an unbound one, whose attempt raises AttributeError.
\<close>

theorem save_reports_non_serialisable:
  assumes "fst (container_save env self data w) = Some exc"
    and "isinstance_exc exc ''Exception''"
    and "pickle_dumps env data = Inl serialisation_exc"
    and "isinstance_exc serialisation_exc ''Exception''"
  shows "fst (SharedMemoryDataset_save env self data w)
           = Some (DatasetError (cannot_be_serialised (class_of env data))
                     (Some serialisation_exc))
       \<and> exc_type (DatasetError (cannot_be_serialised (class_of env data))
                     (Some serialisation_exc)) = ''DatasetError''
       \<and> exc_msg (DatasetError (cannot_be_serialised (class_of env data))
                     (Some serialisation_exc))
           = str_class (class_of env data)
             @ '' cannot be serialised. ParallelRunner implicit memory datasets can only be used with serialisable data''
       \<and> sublist (cls_qualname (class_of env data))
             (exc_msg (DatasetError (cannot_be_serialised (class_of env data))
                         (Some serialisation_exc)))
       \<and> sublist ''ParallelRunner implicit memory datasets can only be used with serialisable data''
             (exc_msg (DatasetError (cannot_be_serialised (class_of env data))
                         (Some serialisation_exc)))"
proof -
  obtain w' where "container_save env self data w = (Some exc, w')"
    using assms(1) by (cases "container_save env self data w") simp
  then have "fst (SharedMemoryDataset_save env self data w)
           = Some (DatasetError (cannot_be_serialised (class_of env data))
                     (Some serialisation_exc))"
    using assms(2-4) by (simp add: SharedMemoryDataset_save_def)
  moreover have "exc_msg (DatasetError m c) = m" for m c
    by (simp add: DatasetError_def)
  moreover have "exc_type (DatasetError m c) = ''DatasetError''" for m c
    by (simp add: DatasetError_def)
  ultimately show ?thesis
    using message_has_qualname [of "class_of env data"]
      message_has_reason [of "class_of env data"]
    by (simp add: cannot_be_serialised_def)
qed

theorem save_reports_non_serialisable_witness:
  "fst (SharedMemoryDataset_save example_env bound_proxy Socket world1)
     = Some (DatasetError
         (''<class '' @ [CHR 0x27] @ ''network.Socket'' @ [CHR 0x27]
            @ ''> cannot be serialised. ParallelRunner implicit memory datasets can only be used with serialisable data'')
         (Some cannot_pickle_socket))
   \<and> sublist ''Socket''
       (exc_msg (DatasetError (cannot_be_serialised (class_of example_env Socket))
                   (Some cannot_pickle_socket)))"
proof -
  have 1: "fst (container_save example_env bound_proxy Socket world1)
             = Some cannot_pickle_socket"
    by (simp add: container_save_def example_env_def bound_proxy_def)
  have 2: "isinstance_exc cannot_pickle_socket ''Exception''"
    by (simp add: isinstance_exc_def cannot_pickle_socket_def TypeError_def)
  have 3: "pickle_dumps example_env Socket = Inl cannot_pickle_socket"
    by (simp add: example_env_def)
  have 4: "cls_qualname (class_of example_env Socket) = ''Socket''"
    by (simp add: example_env_def)
  have 5: "cannot_be_serialised (class_of example_env Socket)
      = ''<class '' @ [CHR 0x27] @ ''network.Socket'' @ [CHR 0x27]
            @ ''> cannot be serialised. ParallelRunner implicit memory datasets can only be used with serialisable data''"
    by (simp add: example_env_def cannot_be_serialised_def str_class_def)
  note t = save_reports_non_serialisable [OF 1 2 3 2]
  from t have a: "fst (SharedMemoryDataset_save example_env bound_proxy Socket world1)
      = Some (DatasetError (cannot_be_serialised (class_of example_env Socket))
                (Some cannot_pickle_socket))"
    by (rule conjunct1)
  from t have b: "sublist (cls_qualname (class_of example_env Socket))
      (exc_msg (DatasetError (cannot_be_serialised (class_of example_env Socket))
                  (Some cannot_pickle_socket)))"
    by blast
  from a [unfolded 5] b [unfolded 4] show ?thesis
    by (rule conjI)
qed

text \<open>
  C2. When handing the artifact to the shared container raises an exception and the
  pickling dry run succeeds, save raises that very exception: same class, same
  message, same cause, not wrapped, and in particular not the DatasetError for
  unserialisable data. The world is the one the failed attempt left.
\<close>

theorem save_reraises_original:
  assumes "container_save env self data w = (Some exc, w')"
    and "pickle_dumps env data = Inr pickled"
  shows "SharedMemoryDataset_save env self data w = (Some exc, w')"
  using assms by (simp add: SharedMemoryDataset_save_def)

theorem save_reraises_original_witness:
  "container_save example_env bound_proxy Table world1
     = (Some connection_reset, world1\<lparr>calls := [CallCreate 7, CallSave (Handle 7 0) Table]\<rparr>)
   \<and> pickle_dumps example_env Table = Inr ''table bytes''
   \<and> SharedMemoryDataset_save example_env bound_proxy Table world1
     = (Some connection_reset, world1\<lparr>calls := [CallCreate 7, CallSave (Handle 7 0) Table]\<rparr>)
   \<and> exc_type connection_reset = ''ConnectionResetError''"
proof -
  have 1: "container_save example_env bound_proxy Table world1
     = (Some connection_reset, world1\<lparr>calls := [CallCreate 7, CallSave (Handle 7 0) Table]\<rparr>)"
    by (simp add: container_save_def example_env_def bound_proxy_def world1_def)
  have 2: "pickle_dumps example_env Table = Inr ''table bytes''"
    by (simp add: example_env_def)
  show ?thesis
    using save_reraises_original [OF 1 2] 1 2 by (simp add: connection_reset_def)
qed

text \<open>
  C3 as stated does not hold: there is no unbound error. On an instance built without
  a manager, load raises the AttributeError of calling a method of None, which is not
  an instance of any class named UnboundError.
\<close>

theorem unbound_load_counterexample:
  "SharedMemoryDataset_init example_env None world0 = (Inr unbound_proxy, world0)
   \<and> SharedMemoryDataset_load example_env unbound_proxy world0
       = (Inl (NoneType_has_no_attribute ''load''), world0)
   \<and> exc_type (NoneType_has_no_attribute ''load'') = ''AttributeError''
   \<and> \<not> isinstance_exc (NoneType_has_no_attribute ''load'') ''UnboundError''"
  by (simp add: SharedMemoryDataset_init_def SharedMemoryDataset_load_def
      container_load_def unbound_proxy_def NoneType_has_no_attribute_def
      AttributeError_def isinstance_exc_def)

text \<open>
  C3, amended. An instance built without a manager holds None, and as long as it
  holds None every load and save fails without a remote call (the world is left as
  it was) and never returns normally: load raises AttributeError for the missing
  method; save raises the same kind of AttributeError when the artifact pickles, the
  DatasetError for unserialisable data when the dry run raises an exception, and the
  dry run's own error when that is not an Exception.
\<close>

theorem unbound_load_save_fail:
  assumes "SharedMemoryDataset_init env None w0 = (Inr self, w1)"
  shows "shared_memory_dataset self = None \<and> w1 = w0
       \<and> SharedMemoryDataset_load env self w
           = (Inl (NoneType_has_no_attribute ''load''), w)
       \<and> SharedMemoryDataset_save env self data w
           = (Some (case pickle_dumps env data of
                      Inr pickled \<Rightarrow> NoneType_has_no_attribute ''save''
                    | Inl serialisation_exc \<Rightarrow>
                        if isinstance_exc serialisation_exc ''Exception''
                        then DatasetError (cannot_be_serialised (class_of env data))
                               (Some serialisation_exc)
                        else serialisation_exc), w)
       \<and> exc_type (NoneType_has_no_attribute name) = ''AttributeError''"
proof -
  from assms have none: "shared_memory_dataset self = None" and w: "w1 = w0"
    by (auto simp: SharedMemoryDataset_init_def)
  have exc: "isinstance_exc (NoneType_has_no_attribute ''save'') ''Exception''"
    by (simp add: NoneType_has_no_attribute_def AttributeError_def isinstance_exc_def)
  have "SharedMemoryDataset_load env self w = (Inl (NoneType_has_no_attribute ''load''), w)"
    using none by (simp add: SharedMemoryDataset_load_def container_load_def)
  moreover have "container_save env self data w
      = (Some (NoneType_has_no_attribute ''save''), w)"
    using none by (simp add: container_save_def)
  then have "SharedMemoryDataset_save env self data w
           = (Some (case pickle_dumps env data of
                      Inr pickled \<Rightarrow> NoneType_has_no_attribute ''save''
                    | Inl serialisation_exc \<Rightarrow>
                        if isinstance_exc serialisation_exc ''Exception''
                        then DatasetError (cannot_be_serialised (class_of env data))
                               (Some serialisation_exc)
                        else serialisation_exc), w)"
    using exc by (simp add: SharedMemoryDataset_save_def split: sum.splits)
  moreover have "exc_type (NoneType_has_no_attribute name) = ''AttributeError''"
    by (simp add: NoneType_has_no_attribute_def AttributeError_def)
  ultimately show ?thesis
    using none w by simp
qed

theorem unbound_load_save_fail_witness:
  "SharedMemoryDataset_init example_env None world0 = (Inr unbound_proxy, world0)
   \<and> SharedMemoryDataset_load example_env unbound_proxy world1
       = (Inl (NoneType_has_no_attribute ''load''), world1)
   \<and> SharedMemoryDataset_save example_env unbound_proxy Table world1
       = (Some (NoneType_has_no_attribute ''save''), world1)
   \<and> SharedMemoryDataset_save example_env unbound_proxy Socket world1
       = (Some (DatasetError (cannot_be_serialised (class_of example_env Socket))
                  (Some cannot_pickle_socket)), world1)"
proof -
  have 1: "SharedMemoryDataset_init example_env None world0 = (Inr unbound_proxy, world0)"
    by (simp add: SharedMemoryDataset_init_def unbound_proxy_def)
  have 2: "isinstance_exc cannot_pickle_socket ''Exception''"
    by (simp add: isinstance_exc_def cannot_pickle_socket_def TypeError_def)
  have 3: "pickle_dumps example_env Socket = Inl cannot_pickle_socket"
    "pickle_dumps example_env Table = Inr ''table bytes''"
    by (simp_all add: example_env_def)
  show ?thesis
    using unbound_load_save_fail [OF 1, of world1 Table]
      unbound_load_save_fail [OF 1, of world1 Socket] 1 2 3
    by simp
qed

lemma manager_MemoryDataset_answered:
  assumes "create_fault env w m = None"
  shows "manager_MemoryDataset env m w
           = (Inr (Handle m (created w)),
              w\<lparr>calls := calls w @ [CallCreate m], created := Suc (created w)\<rparr>)"
  using assms by (simp add: manager_MemoryDataset_def)

lemma set_manager_answered:
  assumes "create_fault env w m = None"
  shows "set_manager env self m w
           = (None, self\<lparr>shared_memory_dataset := Some (Handle m (created w))\<rparr>,
              w\<lparr>calls := calls w @ [CallCreate m], created := Suc (created w)\<rparr>)"
  using assms by (simp add: set_manager_def manager_MemoryDataset_answered)

lemma set_manager_calls:
  "calls (snd (snd (set_manager env self m w))) = calls w @ [CallCreate m]"
  by (simp add: set_manager_def manager_MemoryDataset_def Let_def split: option.splits)

lemma bound_in_fresh:
  assumes "bound_in self w"
  shows "shared_memory_dataset self \<noteq> Some (Handle m (created w))"
  using assms by (auto simp: bound_in_def)

lemma bound_in_set_manager:
  "bound_in (self\<lparr>shared_memory_dataset := Some (Handle m (created w))\<rparr>)
     (w\<lparr>calls := cs, created := Suc (created w)\<rparr>)"
  by (simp add: bound_in_def)

lemma bound_in_init:
  assumes "SharedMemoryDataset_init env manager w = (Inr self, w')"
  shows "bound_in self w'"
  using assms
  by (auto simp: SharedMemoryDataset_init_def manager_MemoryDataset_def bound_in_def Let_def
      split: option.splits prod.splits sum.splits)

lemma bound_in_load:
  assumes "bound_in self w"
  shows "bound_in self (snd (SharedMemoryDataset_load env self w))"
  using assms
  by (auto simp: SharedMemoryDataset_load_def container_load_def bound_in_def
      split: option.splits)

lemma created_save:
  "created (snd (SharedMemoryDataset_save env self data w)) = created w"
  by (auto simp: SharedMemoryDataset_save_def container_save_def
      split: option.splits prod.splits sum.splits)

lemma bound_in_save:
  assumes "bound_in self w"
  shows "bound_in self (snd (SharedMemoryDataset_save env self data w))"
  using assms created_save [of env self data w]
  by (simp add: bound_in_def split: option.splits)

text \<open>
  C7. When the manager answers the request, set_manager asks that manager for a
  container (the one remote call it makes, so nothing is read from the old container
  or written to the new one) and binds the instance to the handle it gets, whatever
  the instance held before. The handle is new: it differs from every handle created
  earlier, hence from the one held before. Attaching again, to a manager that
  answers, binds yet another handle, different from the first. Constructing with
  the manager binds the same handle and leaves the same world as attaching does.
\<close>

theorem set_manager_binds_new_container:
  assumes "create_fault env w m = None" and "bound_in self w"
  shows "set_manager env self m w
           = (None, self\<lparr>shared_memory_dataset := Some (Handle m (created w))\<rparr>,
              w\<lparr>calls := calls w @ [CallCreate m], created := Suc (created w)\<rparr>)
       \<and> manager_MemoryDataset env m w
           = (Inr (Handle m (created w)),
              w\<lparr>calls := calls w @ [CallCreate m], created := Suc (created w)\<rparr>)
       \<and> shared_memory_dataset self \<noteq> Some (Handle m (created w))
       \<and> (\<forall>h. h_index h < created w \<longrightarrow> h \<noteq> Handle m (created w))
       \<and> (\<forall>m2. create_fault env
                   (w\<lparr>calls := calls w @ [CallCreate m], created := Suc (created w)\<rparr>) m2 = None
            \<longrightarrow> shared_memory_dataset (fst (snd (set_manager env
                     (self\<lparr>shared_memory_dataset := Some (Handle m (created w))\<rparr>) m2
                     (w\<lparr>calls := calls w @ [CallCreate m], created := Suc (created w)\<rparr>))))
                  = Some (Handle m2 (Suc (created w)))
              \<and> Handle m2 (Suc (created w)) \<noteq> Handle m (created w))
       \<and> SharedMemoryDataset_init env (Some m) w
           = (Inr \<lparr>EPHEMERAL = True, shared_memory_dataset = Some (Handle m (created w))\<rparr>,
              w\<lparr>calls := calls w @ [CallCreate m], created := Suc (created w)\<rparr>)"
proof -
  let ?w' = "w\<lparr>calls := calls w @ [CallCreate m], created := Suc (created w)\<rparr>"
  let ?self' = "self\<lparr>shared_memory_dataset := Some (Handle m (created w))\<rparr>"
  have a: "set_manager env self m w = (None, ?self', ?w')"
    using assms(1) by (rule set_manager_answered)
  have b: "manager_MemoryDataset env m w = (Inr (Handle m (created w)), ?w')"
    using assms(1) by (rule manager_MemoryDataset_answered)
  have c: "shared_memory_dataset self \<noteq> Some (Handle m (created w))"
    using assms(2) by (rule bound_in_fresh)
  have d: "\<forall>h. h_index h < created w \<longrightarrow> h \<noteq> Handle m (created w)"
    by auto
  have e: "shared_memory_dataset (fst (snd (set_manager env ?self' m2 ?w')))
             = Some (Handle m2 (Suc (created w)))
           \<and> Handle m2 (Suc (created w)) \<noteq> Handle m (created w)"
    if "create_fault env ?w' m2 = None" for m2
    using set_manager_answered [OF that, of ?self'] by simp
  have f: "SharedMemoryDataset_init env (Some m) w
           = (Inr \<lparr>EPHEMERAL = True, shared_memory_dataset = Some (Handle m (created w))\<rparr>, ?w')"
    using b by (simp add: SharedMemoryDataset_init_def)
  from a b c d e f show ?thesis
    by blast
qed

theorem set_manager_binds_new_container_witness:
  "set_manager example_env bound_proxy 7 world1
     = (None, \<lparr>EPHEMERAL = True, shared_memory_dataset = Some (Handle 7 1)\<rparr>,
        \<lparr>created = 2, calls = [CallCreate 7, CallCreate 7]\<rparr>)
   \<and> shared_memory_dataset bound_proxy = Some (Handle 7 0)
   \<and> SharedMemoryDataset_init example_env (Some 7) world1
     = (Inr \<lparr>EPHEMERAL = True, shared_memory_dataset = Some (Handle 7 1)\<rparr>,
        \<lparr>created = 2, calls = [CallCreate 7, CallCreate 7]\<rparr>)"
proof -
  have 1: "create_fault example_env world1 7 = None"
    by (simp add: example_env_def)
  have 2: "bound_in bound_proxy world1"
    by (simp add: bound_in_def bound_proxy_def world1_def)
  show ?thesis
    using set_manager_binds_new_container [OF 1 2]
    by (simp add: bound_proxy_def world1_def)
qed

text \<open>
  C10. For a name that normal lookup does not find, the lookup goes to the object
  the instance is bound to and its outcome is returned as it is, for every name but
  __setstate__: looking that up raises AttributeError, with no message, whatever
  the instance is bound to, and the bound object is not consulted.
\<close>

theorem getattr_forwards_but_setstate:
  "getattr_dunder env self ''__setstate__'' = Inl (AttributeError [])
   \<and> exc_type (AttributeError []) = ''AttributeError''
   \<and> (name \<noteq> ''__setstate__''
        \<longrightarrow> getattr_dunder env self name
              = target_getattr env (shared_memory_dataset self) name)"
  by (simp add: getattr_dunder_def AttributeError_def)

theorem getattr_forwards_but_setstate_witness:
  "getattr_dunder example_env bound_proxy ''__setstate__'' = Inl (AttributeError [])
   \<and> getattr_dunder example_env bound_proxy ''_data'' = Inr ''MemoryDataset._data''
   \<and> target_getattr example_env (Some (Handle 7 0)) ''__setstate__''
       = Inr ''MemoryDataset.__setstate__''"
  using getattr_forwards_but_setstate [of example_env bound_proxy "''_data''"]
  by (simp add: example_env_def bound_proxy_def)

section \<open>Properties of HDFLocalDataSet\<close>

subsection \<open>Creating directories\<close>

lemma node_at_Cons:
  "node_at ((k, n) # fs) q = (if q = [] then Some Dir else if q = k then Some n else node_at fs q)"
  by (simp add: node_at_def)

lemma node_at_root: "node_at fs [] = Some Dir"
  by (simp add: node_at_def)

lemma fs_ok_parent:
  assumes "fs_ok fs" and "node_at fs k \<noteq> None"
  shows "node_at fs (butlast k) = Some Dir"
proof (cases "k = []")
  case True
  then show ?thesis by (simp add: node_at_def)
next
  case False
  with assms(2) obtain n where "map_of fs k = Some n"
    by (auto simp: node_at_def)
  then have "(k, n) \<in> set fs"
    by (rule map_of_SomeD)
  with assms(1) show ?thesis
    by (auto simp: fs_ok_def list_all_iff)
qed

lemma fs_ok_ancestor:
  assumes "fs_ok fs"
  shows "node_at fs (k @ r) \<noteq> None \<Longrightarrow> r \<noteq> [] \<Longrightarrow> node_at fs k = Some Dir"
proof (induction r rule: rev_induct)
  case Nil
  then show ?case by simp
next
  case (snoc x r)
  from fs_ok_parent [OF assms snoc.prems(1)]
  have up: "node_at fs (k @ r) = Some Dir"
    by (simp add: butlast_append)
  show ?case
  proof (cases "r = []")
    case True
    with up show ?thesis by simp
  next
    case False
    with up snoc.IH show ?thesis by simp
  qed
qed

lemma fs_ok_add_dir:
  assumes "fs_ok fs" and "node_at fs (butlast k) = Some Dir"
  shows "fs_ok ((k, Dir) # fs)"
  using assms by (auto simp: fs_ok_def list_all_iff node_at_Cons)

lemma os_mkdir_create:
  "node_at fs k = None \<Longrightarrow> node_at fs (butlast k) = Some Dir
     \<Longrightarrow> os_mkdir fs k = Inr ((k, Dir) # fs)"
  by (simp add: os_mkdir_def)

lemma os_mkdir_exists:
  "node_at fs k = Some n \<Longrightarrow> os_mkdir fs k = Inl (OSError_of ''FileExistsError'')"
  by (simp add: os_mkdir_def)

lemma os_mkdir_missing:
  "node_at fs k = None \<Longrightarrow> node_at fs (butlast k) = None
     \<Longrightarrow> os_mkdir fs k = Inl (OSError_of ''FileNotFoundError'')"
  by (simp add: os_mkdir_def)

lemma Path_mkdir_single:
  "Path_mkdir fs wd p False exist_ok =
     (case os_mkdir fs (fs_key wd p) of
        Inr fs' \<Rightarrow> (None, fs')
      | Inl e \<Rightarrow>
          if isinstance_exc e ''FileNotFoundError'' then (Some e, fs)
          else if isinstance_exc e ''OSError'' then
            (if \<not> exist_ok \<or> \<not> is_dir fs wd p then (Some e, fs) else (None, fs))
          else (Some e, fs))"
  by (subst Path_mkdir.simps) (simp split: sum.splits)

lemma Path_mkdir_existing_dir:
  assumes "node_at fs (fs_key wd p) = Some Dir"
  shows "Path_mkdir fs wd p parents True = (None, fs)"
  using assms
  by (subst Path_mkdir.simps)
    (simp add: os_mkdir_exists OSError_of_def isinstance_exc_def is_dir_def)

lemma Path_mkdir_in_dir:
  assumes "node_at fs (fs_key wd p) = None"
    and "node_at fs (butlast (fs_key wd p)) = Some Dir"
  shows "Path_mkdir fs wd p parents exist_ok = (None, (fs_key wd p, Dir) # fs)"
  using assms
  by (subst Path_mkdir.simps) (simp add: os_mkdir_create)

lemma Path_mkdir_recurse:
  assumes "node_at fs (fs_key wd p) = None"
    and "node_at fs (butlast (fs_key wd p)) = None"
    and "parts p \<noteq> []"
  shows "Path_mkdir fs wd p True exist_ok =
     (case Path_mkdir fs wd (parent p) True True of
        (Some e', fs') \<Rightarrow> (Some e', fs')
      | (None, fs') \<Rightarrow> Path_mkdir fs' wd p False exist_ok)"
proof -
  have "parent p \<noteq> p"
  proof
    assume "parent p = p"
    then have "butlast (parts p) = parts p"
      by (cases p) (simp add: parent_def)
    then have "length (parts p) - 1 = length (parts p)"
      by (metis length_butlast)
    with assms(3) show False
      by (cases "parts p") simp_all
  qed
  then show ?thesis
    using assms(1,2)
    by (subst Path_mkdir.simps)
      (simp add: os_mkdir_missing OSError_of_def isinstance_exc_def)
qed

lemma Path_mkdir_parents:
  fixes fs :: "'c fs"
  assumes ok: "fs_ok fs"
    and base: "node_at fs (fs_key wd (Path a [])) = Some Dir"
  shows "\<forall>n\<le>length ps. \<forall>c. node_at fs (fs_key wd (Path a (take n ps))) \<noteq> Some (File c)
    \<Longrightarrow> \<exists>fs'. Path_mkdir fs wd (Path a ps) True True = (None, fs') \<and> fs_ok fs'
          \<and> (\<forall>n\<le>length ps. node_at fs' (fs_key wd (Path a (take n ps))) = Some Dir)
          \<and> (\<forall>k. node_at fs k \<noteq> None \<longrightarrow> node_at fs' k = node_at fs k)
          \<and> (\<forall>k. node_at fs' k \<noteq> None \<longrightarrow> node_at fs k \<noteq> None
                \<or> (\<exists>n\<le>length ps. k = fs_key wd (Path a (take n ps))))"
proof (induction ps rule: rev_induct)
  case Nil
  have "Path_mkdir fs wd (Path a []) True True = (None, fs)"
    using base by (rule Path_mkdir_existing_dir)
  with ok base show ?case
    by simp
next
  case (snoc x ps)
  define b where "b = (if a then [] else wd)"
  let ?p = "Path a (ps @ [x])"
  let ?k = "b @ ps @ [x]"
  have keyn: "fs_key wd (Path a xs) = b @ xs" for xs
    by (simp add: fs_key_def absolute_def b_def)
  have key: "fs_key wd ?p = ?k" and key': "fs_key wd (Path a ps) = b @ ps"
    by (simp_all add: keyn)
  have nofile: "\<forall>n\<le>length ps. \<forall>c. node_at fs (fs_key wd (Path a (take n ps))) \<noteq> Some (File c)"
  proof (intro allI impI)
    fix n c assume "n \<le> length ps"
    then show "node_at fs (fs_key wd (Path a (take n ps))) \<noteq> Some (File c)"
      using snoc.prems [rule_format, of n c] by simp
  qed
  have nofile_k: "node_at fs ?k \<noteq> Some (File c)" for c
    using snoc.prems [rule_format, of "Suc (length ps)" c] key by simp
  have nofile_up: "node_at fs (b @ ps) \<noteq> Some (File c)" for c
    using snoc.prems [rule_format, of "length ps" c] key' by simp
  have prefix_cases: "n \<le> length ps \<or> take n (ps @ [x]) = ps @ [x]" for n
    by (cases "n \<le> length ps") simp_all
  have create: "\<exists>fs'. Path_mkdir g wd ?p parents True = (None, fs') \<and> fs_ok fs'
          \<and> (\<forall>n\<le>length (ps @ [x]). node_at fs' (fs_key wd (Path a (take n (ps @ [x])))) = Some Dir)
          \<and> (\<forall>k. node_at g k \<noteq> None \<longrightarrow> node_at fs' k = node_at g k)
          \<and> (\<forall>k. node_at fs' k \<noteq> None \<longrightarrow> node_at g k \<noteq> None \<or> k = ?k)"
    if g: "fs_ok g" "node_at g ?k = None" "node_at g (b @ ps) = Some Dir" for g :: "'c fs" and parents
  proof -
    have up: "node_at g (butlast (fs_key wd ?p)) = Some Dir"
      using g(3) key by (simp add: butlast_append)
    have run: "Path_mkdir g wd ?p parents True = (None, (?k, Dir) # g)"
      using Path_mkdir_in_dir [of g wd ?p parents True] g(2) up key by simp
    have ok': "fs_ok ((?k, Dir) # g)"
      using g(1) up key by (intro fs_ok_add_dir) simp_all
    have dirs: "node_at ((?k, Dir) # g) (fs_key wd (Path a (take n (ps @ [x])))) = Some Dir"
      if "n \<le> length (ps @ [x])" for n
    proof (cases "n \<le> length ps")
      case True
      show ?thesis
      proof (cases "n = length ps")
        case True
        then show ?thesis
          using g(3) by (simp add: keyn node_at_Cons)
      next
        case False
        with True have "n < length ps" by simp
        then have "drop n ps \<noteq> []" by simp
        moreover have "node_at g ((b @ take n ps) @ drop n ps) \<noteq> None"
          using g(3) by simp
        ultimately have "node_at g (b @ take n ps) = Some Dir"
          using fs_ok_ancestor [OF g(1), of "b @ take n ps" "drop n ps"] by blast
        with True show ?thesis
          by (simp add: keyn node_at_Cons)
      qed
    next
      case False
      with that have "take n (ps @ [x]) = ps @ [x]" by simp
      then show ?thesis
        by (simp add: keyn node_at_Cons)
    qed
    have keep: "node_at ((?k, Dir) # g) k = node_at g k" if "node_at g k \<noteq> None" for k
      using that g(2) by (auto simp: node_at_Cons node_at_def)
    have only: "node_at g k \<noteq> None \<or> k = ?k" if "node_at ((?k, Dir) # g) k \<noteq> None" for k
      using that by (auto simp: node_at_Cons node_at_root split: if_splits)
    from run ok' dirs keep only show ?thesis
      by blast
  qed
  show ?case
  proof (cases "node_at fs ?k")
    case (Some n)
    with nofile_k have dir: "node_at fs ?k = Some Dir"
      by (cases n) auto
    then have run: "Path_mkdir fs wd ?p True True = (None, fs)"
      using Path_mkdir_existing_dir [of fs wd ?p True] key by simp
    have dirs: "node_at fs (fs_key wd (Path a (take n (ps @ [x])))) = Some Dir"
      if "n \<le> length (ps @ [x])" for n
    proof (cases "n \<le> length ps")
      case True
      have eq: "(b @ take n ps) @ drop n ps @ [x] = ?k"
        by (metis append.assoc append_take_drop_id)
      from dir have "node_at fs ?k \<noteq> None" by simp
      then have "node_at fs ((b @ take n ps) @ drop n ps @ [x]) \<noteq> None"
        unfolding eq .
      then have "node_at fs (b @ take n ps) = Some Dir"
        using fs_ok_ancestor [OF ok, of "b @ take n ps" "drop n ps @ [x]"] by blast
      with True show ?thesis
        by (simp add: keyn)
    next
      case False
      with that have "take n (ps @ [x]) = ps @ [x]" by simp
      with dir show ?thesis
        by (simp add: keyn)
    qed
    from run ok dirs show ?thesis
      by blast
  next
    case None
    show ?thesis
    proof (cases "node_at fs (b @ ps)")
      case (Some n)
      with nofile_up have "node_at fs (b @ ps) = Some Dir"
        by (cases n) auto
      from create [OF ok None this, of True]
      show ?thesis
        by (metis (no_types, lifting) keyn length_append_singleton le_Suc_eq take_all_iff
            order_refl)
    next
      case up: None
      obtain fs1 where fs1: "Path_mkdir fs wd (Path a ps) True True = (None, fs1)" "fs_ok fs1"
        and dirs1: "\<forall>n\<le>length ps. node_at fs1 (fs_key wd (Path a (take n ps))) = Some Dir"
        and keep1: "\<forall>k. node_at fs k \<noteq> None \<longrightarrow> node_at fs1 k = node_at fs k"
        and only1: "\<forall>k. node_at fs1 k \<noteq> None \<longrightarrow> node_at fs k \<noteq> None
                \<or> (\<exists>n\<le>length ps. k = fs_key wd (Path a (take n ps)))"
        using snoc.IH [OF nofile] by blast
      have rec: "Path_mkdir fs wd ?p True True = Path_mkdir fs1 wd ?p False True"
        using Path_mkdir_recurse [of fs wd ?p True] None up key fs1(1)
        by (simp add: butlast_append parent_def)
      have new: "node_at fs1 ?k = None"
      proof (rule ccontr)
        assume "node_at fs1 ?k \<noteq> None"
        with only1 None obtain n where "n \<le> length ps" "?k = fs_key wd (Path a (take n ps))"
          by blast
        then have "length (ps @ [x]) = length (take n ps)"
          by (simp add: keyn)
        with \<open>n \<le> length ps\<close> show False by simp
      qed
      have up1: "node_at fs1 (b @ ps) = Some Dir"
        using dirs1 [rule_format, of "length ps"] by (simp add: keyn)
      obtain fs2 where fs2: "Path_mkdir fs1 wd ?p False True = (None, fs2)" "fs_ok fs2"
        and dirs2: "\<forall>n\<le>length (ps @ [x]).
            node_at fs2 (fs_key wd (Path a (take n (ps @ [x])))) = Some Dir"
        and keep2: "\<forall>k. node_at fs1 k \<noteq> None \<longrightarrow> node_at fs2 k = node_at fs1 k"
        and only2: "\<forall>k. node_at fs2 k \<noteq> None \<longrightarrow> node_at fs1 k \<noteq> None \<or> k = ?k"
        using create [OF fs1(2) new up1, of False] by blast
      have keep: "node_at fs2 k = node_at fs k" if "node_at fs k \<noteq> None" for k
        using that keep1 keep2 by simp
      have only: "node_at fs k \<noteq> None
          \<or> (\<exists>n\<le>length (ps @ [x]). k = fs_key wd (Path a (take n (ps @ [x]))))"
        if "node_at fs2 k \<noteq> None" for k
      proof -
        from only2 that have "node_at fs1 k \<noteq> None \<or> k = ?k" by blast
        then show ?thesis
        proof
          assume "node_at fs1 k \<noteq> None"
          with only1 have "node_at fs k \<noteq> None
              \<or> (\<exists>n\<le>length ps. k = fs_key wd (Path a (take n ps)))" by blast
          then show ?thesis
          proof
            assume "\<exists>n\<le>length ps. k = fs_key wd (Path a (take n ps))"
            then obtain n where "n \<le> length ps" "k = fs_key wd (Path a (take n ps))" by blast
            then have "n \<le> length (ps @ [x]) \<and> k = fs_key wd (Path a (take n (ps @ [x])))"
              by simp
            then show ?thesis by blast
          qed simp
        next
          assume "k = ?k"
          then have "Suc (length ps) \<le> length (ps @ [x])
              \<and> k = fs_key wd (Path a (take (Suc (length ps)) (ps @ [x])))"
            by (simp add: keyn)
          then show ?thesis by blast
        qed
      qed
      from rec fs2 dirs2 keep only show ?thesis
        by (metis (no_types, lifting))
    qed
  qed
qed

subsection \<open>Saving\<close>

lemma get_save_path_keeps:
  assumes "get_save_path self st = (save_path, self1)"
  shows "pinned_load_version self1 = pinned_load_version self"
    and "key self1 = key self" and "save_args self1 = save_args self"
    and "load_args self1 = load_args self" and "filepath self1 = filepath self"
  using assms
  by (auto simp: get_save_path_def pinned_load_version_def split: option.splits)

lemma get_load_path_error:
  assumes "get_load_path self st = Inl e"
  shows "e = NotFoundError"
  using assms
  by (auto simp: get_load_path_def split: option.splits if_splits list.splits)

lemma NotFoundError_is_DataSetError: "isinstance_exc NotFoundError ''DataSetError''"
  by (simp add: NotFoundError_def isinstance_exc_def)

lemma ancestor_keys_iff:
  "k \<in> set (ancestor_keys wd p)
     \<longleftrightarrow> (\<exists>n\<le>length (parts p). k = fs_key wd (Path (anchored p) (take n (parts p))))"
proof -
  have "{0..<Suc (length (parts p))} = {n. n \<le> length (parts p)}"
    by auto
  then have "set (ancestor_keys wd p)
      = (\<lambda>n. fs_key wd (Path (anchored p) (take n (parts p)))) ` {n. n \<le> length (parts p)}"
    unfolding ancestor_keys_def set_map set_upt by (rule arg_cong)
  then show ?thesis
    by (simp only: image_iff Bex_def mem_Collect_eq)
qed

lemmas example_defs =
  example_hdf_env_def racing_hdf_env_def machine0_def machine1_def machine2_def
  example_version_def example_ds_def example_save_path_def example_dirs_def
  machine1_files_def racing_files_def example_ds_saved_def key_option_ds_def
  columns_ds_def pinned_ds_def

lemmas path_defs =
  parent_def name_of_def joinpath_def absolute_def fs_key_def versioned_path_def
  node_at_def is_dir_def is_file_def

lemma example_get_save_path:
  "get_save_path example_ds machine0 = (example_save_path, example_ds_saved)"
  by (simp add: get_save_path_def pinned_save_version_def HDFLocalDataSet_init_def
      example_defs path_defs)

lemma example_fs_ok: "fs_ok (files machine0)"
  by (simp add: fs_ok_def example_defs path_defs)

lemma example_free:
  "\<forall>k\<in>set (ancestor_keys (cwd machine0) (parent example_save_path)).
     node_at (files machine0) k = None \<or> node_at (files machine0) k = Some Dir"
  by (simp add: ancestor_keys_def example_defs path_defs upt_rec)

lemma example_mkdir:
  "Path_mkdir (files machine0) (cwd machine0) (parent example_save_path) True True
     = (None, example_dirs)"
  by (simp add: Path_mkdir.simps os_mkdir_def OSError_of_def isinstance_exc_def
      example_defs path_defs)

text \<open>
  C5. On a well-formed file system where the working directory exists, if every
  ancestor of the save path, its parent directory included, is either missing or a
  directory, then creating the parent directory succeeds: afterwards each of these
  ancestors is a directory, what existed before is untouched, and the artifact is
  handed to the adapter on the file system that has the directories.
\<close>

theorem save_creates_missing_directories:
  assumes sp: "get_save_path self st = (save_path, self1)"
    and ok: "fs_ok (files st)"
    and wd: "anchored save_path \<or> node_at (files st) (cwd st) = Some Dir"
    and free: "\<forall>k\<in>set (ancestor_keys (cwd st) (parent save_path)).
                 node_at (files st) k = None \<or> node_at (files st) k = Some Dir"
  shows "\<exists>fs1. Path_mkdir (files st) (cwd st) (parent save_path) True True = (None, fs1)
           \<and> (\<forall>k\<in>set (ancestor_keys (cwd st) (parent save_path)). node_at fs1 k = Some Dir)
           \<and> is_dir fs1 (cwd st) (parent save_path)
           \<and> (\<forall>k. node_at (files st) k \<noteq> None \<longrightarrow> node_at fs1 k = node_at (files st) k)
           \<and> HDFLocalDataSet_save env self data st
               = after_write self1 (st\<lparr>files := fs1\<rparr>) save_path
                   (call_to_hdf env (st\<lparr>files := fs1\<rparr>) data save_path (key self)
                      (save_args self))"
proof -
  let ?a = "anchored save_path" and ?ps = "butlast (parts save_path)"
  have p: "parent save_path = Path ?a ?ps"
    by (simp add: parent_def)
  have base: "node_at (files st) (fs_key (cwd st) (Path ?a [])) = Some Dir"
    using wd by (auto simp: fs_key_def absolute_def node_at_root)
  have anc: "anchored (parent save_path) = ?a" "parts (parent save_path) = ?ps"
    by (simp_all add: parent_def)
  have nofile: "\<forall>n\<le>length ?ps. \<forall>c.
      node_at (files st) (fs_key (cwd st) (Path ?a (take n ?ps))) \<noteq> Some (File c)"
  proof (intro allI impI)
    fix n c assume "n \<le> length ?ps"
    then have "fs_key (cwd st) (Path ?a (take n ?ps))
        \<in> set (ancestor_keys (cwd st) (parent save_path))"
      unfolding ancestor_keys_iff anc by (intro exI [of _ n]) simp
    with free have "node_at (files st) (fs_key (cwd st) (Path ?a (take n ?ps))) = None
        \<or> node_at (files st) (fs_key (cwd st) (Path ?a (take n ?ps))) = Some Dir"
      by (rule bspec)
    then show "node_at (files st) (fs_key (cwd st) (Path ?a (take n ?ps))) \<noteq> Some (File c)"
      by auto
  qed
  from Path_mkdir_parents [OF ok base nofile] show ?thesis
  proof (elim exE conjE)
    fix fs1
    assume run: "Path_mkdir (files st) (cwd st) (Path ?a ?ps) True True = (None, fs1)"
      and dirs: "\<forall>n\<le>length ?ps. node_at fs1 (fs_key (cwd st) (Path ?a (take n ?ps))) = Some Dir"
      and keep: "\<forall>k. node_at (files st) k \<noteq> None \<longrightarrow> node_at fs1 k = node_at (files st) k"
    have run': "Path_mkdir (files st) (cwd st) (parent save_path) True True = (None, fs1)"
      using run p by simp
    have all: "\<forall>k\<in>set (ancestor_keys (cwd st) (parent save_path)). node_at fs1 k = Some Dir"
    proof
      fix k assume "k \<in> set (ancestor_keys (cwd st) (parent save_path))"
      then obtain n where "n \<le> length ?ps" "k = fs_key (cwd st) (Path ?a (take n ?ps))"
        unfolding ancestor_keys_iff anc by (elim exE conjE)
      with dirs show "node_at fs1 k = Some Dir"
        by simp
    qed
    have "node_at fs1 (fs_key (cwd st) (Path ?a (take (length ?ps) ?ps))) = Some Dir"
      using dirs by (elim allE [of _ "length ?ps"]) simp
    then have "node_at fs1 (fs_key (cwd st) (parent save_path)) = Some Dir"
      using p by simp
    then have dir: "is_dir fs1 (cwd st) (parent save_path)"
      by (simp add: is_dir_def)
    have save: "HDFLocalDataSet_save env self data st
               = after_write self1 (st\<lparr>files := fs1\<rparr>) save_path
                   (call_to_hdf env (st\<lparr>files := fs1\<rparr>) data save_path (key self)
                      (save_args self))"
      using sp run' get_save_path_keeps [OF sp]
      by (simp add: HDFLocalDataSet_save_def)
    show ?thesis
      by (intro exI [of _ fs1] conjI) (fact run' all dir keep save)+
  qed
qed

theorem save_creates_missing_directories_witness:
  "node_at (files machine0) [''home'', ''kedro'', ''data''] = None
   \<and> (\<exists>fs1. Path_mkdir (files machine0) (cwd machine0) (parent example_save_path) True True
                = (None, fs1)
          \<and> (\<forall>k\<in>set (ancestor_keys (cwd machine0) (parent example_save_path)).
                 node_at fs1 k = Some Dir)
          \<and> is_dir fs1 (cwd machine0) (parent example_save_path)
          \<and> (\<forall>k. node_at (files machine0) k \<noteq> None
                 \<longrightarrow> node_at fs1 k = node_at (files machine0) k)
          \<and> HDFLocalDataSet_save example_hdf_env example_ds 42 machine0
              = after_write example_ds_saved (machine0\<lparr>files := fs1\<rparr>) example_save_path
                  (call_to_hdf example_hdf_env (machine0\<lparr>files := fs1\<rparr>) 42
                     example_save_path (key example_ds) (save_args example_ds)))
   \<and> Path_mkdir (files machine0) (cwd machine0) (parent example_save_path) True True
       = (None, example_dirs)
   \<and> fst (HDFLocalDataSet_save example_hdf_env example_ds 42 machine0) = None
   \<and> files (snd (snd (HDFLocalDataSet_save example_hdf_env example_ds 42 machine0)))
       = machine1_files"
proof (intro conjI)
  show "node_at (files machine0) [''home'', ''kedro'', ''data''] = None"
    by code_simp
next
  have wd: "anchored example_save_path \<or> node_at (files machine0) (cwd machine0) = Some Dir"
    by code_simp
  show "\<exists>fs1. Path_mkdir (files machine0) (cwd machine0) (parent example_save_path) True True
                = (None, fs1)
          \<and> (\<forall>k\<in>set (ancestor_keys (cwd machine0) (parent example_save_path)).
                 node_at fs1 k = Some Dir)
          \<and> is_dir fs1 (cwd machine0) (parent example_save_path)
          \<and> (\<forall>k. node_at (files machine0) k \<noteq> None
                 \<longrightarrow> node_at fs1 k = node_at (files machine0) k)
          \<and> HDFLocalDataSet_save example_hdf_env example_ds 42 machine0
              = after_write example_ds_saved (machine0\<lparr>files := fs1\<rparr>) example_save_path
                  (call_to_hdf example_hdf_env (machine0\<lparr>files := fs1\<rparr>) 42
                     example_save_path (key example_ds) (save_args example_ds))"
    by (rule save_creates_missing_directories
        [OF example_get_save_path example_fs_ok wd example_free])
next
  show "Path_mkdir (files machine0) (cwd machine0) (parent example_save_path) True True
       = (None, example_dirs)"
    by (rule example_mkdir)
next
  show "fst (HDFLocalDataSet_save example_hdf_env example_ds 42 machine0) = None"
    by code_simp
next
  show "files (snd (snd (HDFLocalDataSet_save example_hdf_env example_ds 42 machine0)))
       = machine1_files"
    by code_simp
qed

text \<open>
  C4. Once the directories are made and the adapter has written without error, save
  resolves the load path on the file system the write left and checks it, made
  absolute, against the absolute save path; a failed resolution is raised as it is.
  With no load version pinned the outcome of a resolved load path is the consistency
  error when the two absolute paths differ and no error when they agree. The written
  files stay in either case.
\<close>

theorem save_checks_consistency:
  assumes sp: "get_save_path self st = (save_path, self1)"
    and mk: "Path_mkdir (files st) (cwd st) (parent save_path) True True = (None, fs1)"
    and wr: "call_to_hdf env (st\<lparr>files := fs1\<rparr>) data save_path (key self) (save_args self)
               = (None, fs2)"
  shows "HDFLocalDataSet_save env self data st
           = ((case get_load_path self1 (st\<lparr>files := fs2\<rparr>) of
                 Inl e \<Rightarrow> Some e
               | Inr load_path \<Rightarrow>
                   check_paths_consistency self1
                     (absolute (cwd st) load_path) (absolute (cwd st) save_path)),
              self1, st\<lparr>files := fs2\<rparr>)
       \<and> (\<forall>load_path.
             pinned_load_version self = None
               \<and> get_load_path self1 (st\<lparr>files := fs2\<rparr>) = Inr load_path \<longrightarrow>
             fst (HDFLocalDataSet_save env self data st)
               = (if absolute (cwd st) load_path \<noteq> absolute (cwd st) save_path
                  then Some ConsistencyError else None))"
proof -
  have save: "HDFLocalDataSet_save env self data st
           = ((case get_load_path self1 (st\<lparr>files := fs2\<rparr>) of
                 Inl e \<Rightarrow> Some e
               | Inr load_path \<Rightarrow>
                   check_paths_consistency self1
                     (absolute (cwd st) load_path) (absolute (cwd st) save_path)),
              self1, st\<lparr>files := fs2\<rparr>)"
    using sp mk wr get_save_path_keeps [OF sp]
    by (simp add: HDFLocalDataSet_save_def after_write_def split: sum.splits)
  have "fst (HDFLocalDataSet_save env self data st)
               = (if absolute (cwd st) load_path \<noteq> absolute (cwd st) save_path
                  then Some ConsistencyError else None)"
    if "pinned_load_version self = None
          \<and> get_load_path self1 (st\<lparr>files := fs2\<rparr>) = Inr load_path" for load_path
    using that get_save_path_keeps(1) [OF sp]
    by (simp add: save check_paths_consistency_def)
  with save show ?thesis
    by simp
qed

lemma racing_write:
  "call_to_hdf racing_hdf_env (machine0\<lparr>files := example_dirs\<rparr>) 42 example_save_path
     (key example_ds) (save_args example_ds) = (None, racing_files)"
  by code_simp

lemma racing_load_path:
  "get_load_path example_ds_saved (machine0\<lparr>files := racing_files\<rparr>)
     = Inr (Path False [''data'', ''test.hdf'', ''2019-01-02'', ''test.hdf''])"
  by code_simp

theorem save_checks_consistency_witness:
  "get_load_path example_ds_saved (machine0\<lparr>files := racing_files\<rparr>)
     = Inr (Path False [''data'', ''test.hdf'', ''2019-01-02'', ''test.hdf''])
   \<and> HDFLocalDataSet_save racing_hdf_env example_ds 42 machine0
       = (Some ConsistencyError, example_ds_saved, machine0\<lparr>files := racing_files\<rparr>)"
proof -
  have pin: "pinned_load_version example_ds_saved = None"
    by (simp add: pinned_load_version_def HDFLocalDataSet_init_def example_defs)
  have differ: "absolute (cwd machine0)
        (Path False [''data'', ''test.hdf'', ''2019-01-02'', ''test.hdf''])
      \<noteq> absolute (cwd machine0) example_save_path"
    by code_simp
  from save_checks_consistency [OF example_get_save_path example_mkdir racing_write]
  have "HDFLocalDataSet_save racing_hdf_env example_ds 42 machine0
      = ((case get_load_path example_ds_saved (machine0\<lparr>files := racing_files\<rparr>) of
                 Inl e \<Rightarrow> Some e
               | Inr load_path \<Rightarrow>
                   check_paths_consistency example_ds_saved
                     (absolute (cwd machine0) load_path)
                     (absolute (cwd machine0) example_save_path)),
              example_ds_saved, machine0\<lparr>files := racing_files\<rparr>)"
    by (rule conjunct1)
  then have "HDFLocalDataSet_save racing_hdf_env example_ds 42 machine0
       = (Some ConsistencyError, example_ds_saved, machine0\<lparr>files := racing_files\<rparr>)"
    using differ pin by (simp add: racing_load_path check_paths_consistency_def)
  with racing_load_path show ?thesis
    by (intro conjI)
qed

subsection \<open>Options\<close>

lemma init_args:
  "load_args (HDFLocalDataSet_init fp k la sa v) = options_supplied la"
  "save_args (HDFLocalDataSet_init fp k la sa v) = options_supplied sa"
  "key (HDFLocalDataSet_init fp k la sa v) = k"
  by (simp_all add: HDFLocalDataSet_init_def options_supplied_def Let_def split: option.splits)

text \<open>
  C8 as stated does not hold: load options that name \<^verbatim>\<open>key\<close> never reach the
  adapter. The load path resolves and the adapter would return the frame for these
  options, but the call raises TypeError since \<^verbatim>\<open>key\<close> is passed twice.
\<close>

theorem key_option_counterexample:
  "load_args key_option_ds ''key'' = Some ''other''
   \<and> get_load_path key_option_ds machine1 = Inr example_save_path
   \<and> read_hdf example_hdf_env machine1 example_save_path ''test_hdf_key''
         (load_args key_option_ds) = Inr 42
   \<and> HDFLocalDataSet_load example_hdf_env key_option_ds machine1
       = Inl (multiple_values_for_key ''read_hdf'')"
proof (intro conjI)
  show "load_args key_option_ds ''key'' = Some ''other''"
    by (simp add: key_option_ds_def HDFLocalDataSet_init_def)
  show "get_load_path key_option_ds machine1 = Inr example_save_path"
    by code_simp
  show "read_hdf example_hdf_env machine1 example_save_path ''test_hdf_key''
         (load_args key_option_ds) = Inr 42"
    by code_simp
  show "HDFLocalDataSet_load example_hdf_env key_option_ds machine1
       = Inl (multiple_values_for_key ''read_hdf'')"
    by code_simp
qed

text \<open>
  C8, amended. The instance keeps exactly the load and save options it was given, none
  for None. When the load path resolves, load is the adapter's read with the resolved
  path, the key and exactly these load options; after the directories are made, save
  continues with the adapter's write with the data, the save path, the key and exactly
  these save options. Both hold provided the options do not name \<^verbatim>\<open>key\<close>, which
  the data set passes itself: with that name among them the call raises TypeError and
  the adapter is not entered.
\<close>

theorem options_passed_through:
  "load_args (HDFLocalDataSet_init fp k la sa v) = options_supplied la
   \<and> save_args (HDFLocalDataSet_init fp k la sa v) = options_supplied sa
   \<and> (\<forall>p. get_load_path (HDFLocalDataSet_init fp k la sa v) st = Inr p \<longrightarrow>
         HDFLocalDataSet_load env (HDFLocalDataSet_init fp k la sa v) st
           = (if options_supplied la ''key'' = None
              then read_hdf env st p k (options_supplied la)
              else Inl (multiple_values_for_key ''read_hdf'')))
   \<and> (\<forall>save_path self1 fs1.
         get_save_path (HDFLocalDataSet_init fp k la sa v) st = (save_path, self1)
           \<and> Path_mkdir (files st) (cwd st) (parent save_path) True True = (None, fs1) \<longrightarrow>
         HDFLocalDataSet_save env (HDFLocalDataSet_init fp k la sa v) data st
           = after_write self1 (st\<lparr>files := fs1\<rparr>) save_path
               (if options_supplied sa ''key'' = None
                then to_hdf env (st\<lparr>files := fs1\<rparr>) data save_path k (options_supplied sa)
                else (Some (multiple_values_for_key ''to_hdf''), fs1)))"
proof (intro conjI allI impI)
  let ?ds = "HDFLocalDataSet_init fp k la sa v"
  show "load_args ?ds = options_supplied la" and "save_args ?ds = options_supplied sa"
    by (rule init_args)+
  show "HDFLocalDataSet_load env ?ds st
           = (if options_supplied la ''key'' = None
              then read_hdf env st p k (options_supplied la)
              else Inl (multiple_values_for_key ''read_hdf''))"
    if "get_load_path ?ds st = Inr p" for p
    using that by (simp add: HDFLocalDataSet_load_def call_read_hdf_def init_args)
  show "HDFLocalDataSet_save env ?ds data st
           = after_write self1 (st\<lparr>files := fs1\<rparr>) save_path
               (if options_supplied sa ''key'' = None
                then to_hdf env (st\<lparr>files := fs1\<rparr>) data save_path k (options_supplied sa)
                else (Some (multiple_values_for_key ''to_hdf''), fs1))"
    if h: "get_save_path ?ds st = (save_path, self1)
           \<and> Path_mkdir (files st) (cwd st) (parent save_path) True True = (None, fs1)"
    for save_path self1 fs1
  proof -
    from h have sp: "get_save_path ?ds st = (save_path, self1)"
      and mk: "Path_mkdir (files st) (cwd st) (parent save_path) True True = (None, fs1)"
      by simp_all
    show ?thesis
      using sp mk get_save_path_keeps(2,3) [OF sp]
      by (simp add: HDFLocalDataSet_save_def call_to_hdf_def init_args)
  qed
qed

theorem options_passed_through_witness:
  "load_args columns_ds ''columns'' = Some ''col1''
   \<and> save_args columns_ds ''format'' = Some ''table''
   \<and> get_load_path columns_ds machine1 = Inr example_save_path
   \<and> HDFLocalDataSet_load example_hdf_env columns_ds machine1
       = read_hdf example_hdf_env machine1 example_save_path ''test_hdf_key''
           [''columns'' \<mapsto> ''col1'']
   \<and> HDFLocalDataSet_save example_hdf_env columns_ds 42 machine0
       = after_write columns_ds_saved (machine0\<lparr>files := example_dirs\<rparr>) example_save_path
           (to_hdf example_hdf_env (machine0\<lparr>files := example_dirs\<rparr>) 42 example_save_path
              ''test_hdf_key'' [''format'' \<mapsto> ''table''])"
proof -
  have a: "options_supplied (Some [''columns'' \<mapsto> ''col1'']) = [''columns'' \<mapsto> ''col1'']"
    by (simp add: options_supplied_def)
  have b: "options_supplied (Some [''format'' \<mapsto> ''table'']) = [''format'' \<mapsto> ''table'']"
    by (simp add: options_supplied_def)
  have p: "get_load_path columns_ds machine1 = Inr example_save_path"
    by code_simp
  have sp: "get_save_path columns_ds machine0 = (example_save_path, columns_ds_saved)"
    by (simp add: get_save_path_def pinned_save_version_def HDFLocalDataSet_init_def
        Let_def example_defs columns_ds_saved_def path_defs)
  have mk: "Path_mkdir (files machine0) (cwd machine0) (parent example_save_path) True True
      = (None, example_dirs)"
    by (rule example_mkdir)
  note t = options_passed_through
    [of "Path False [''data'', ''test.hdf'']" "''test_hdf_key''"
      "Some [''columns'' \<mapsto> ''col1'']" "Some [''format'' \<mapsto> ''table'']"
      "Some example_version" machine1 example_hdf_env 42, folded columns_ds_def, unfolded a b]
  note t0 = options_passed_through
    [of "Path False [''data'', ''test.hdf'']" "''test_hdf_key''"
      "Some [''columns'' \<mapsto> ''col1'']" "Some [''format'' \<mapsto> ''table'']"
      "Some example_version" machine0 example_hdf_env 42, folded columns_ds_def, unfolded a b]
  from t have "load_args columns_ds = [''columns'' \<mapsto> ''col1'']"
    by (rule conjunct1)
  then have 1: "load_args columns_ds ''columns'' = Some ''col1''"
    by simp
  from t [THEN conjunct2] have "save_args columns_ds = [''format'' \<mapsto> ''table'']"
    by (rule conjunct1)
  then have 2: "save_args columns_ds ''format'' = Some ''table''"
    by simp
  from t [THEN conjunct2, THEN conjunct2]
  have "\<forall>p. get_load_path columns_ds machine1 = Inr p \<longrightarrow>
         HDFLocalDataSet_load example_hdf_env columns_ds machine1
           = (if [''columns'' \<mapsto> ''col1''] ''key'' = None
              then read_hdf example_hdf_env machine1 p ''test_hdf_key'' [''columns'' \<mapsto> ''col1'']
              else Inl (multiple_values_for_key ''read_hdf''))"
    by (rule conjunct1)
  with p have 3: "HDFLocalDataSet_load example_hdf_env columns_ds machine1
       = read_hdf example_hdf_env machine1 example_save_path ''test_hdf_key''
           [''columns'' \<mapsto> ''col1'']"
    by simp
  from t0 [THEN conjunct2, THEN conjunct2, THEN conjunct2, rule_format,
      of example_save_path columns_ds_saved example_dirs] sp mk
  have 4: "HDFLocalDataSet_save example_hdf_env columns_ds 42 machine0
       = after_write columns_ds_saved (machine0\<lparr>files := example_dirs\<rparr>) example_save_path
           (to_hdf example_hdf_env (machine0\<lparr>files := example_dirs\<rparr>) 42 example_save_path
              ''test_hdf_key'' [''format'' \<mapsto> ''table''])"
    by simp
  from 1 2 p 3 4 show ?thesis
    by (intro conjI)
qed

subsection \<open>Existence\<close>

lemma key_with_slash_cases:
  "key_with_slash k = (if k \<noteq> [] \<and> hd k = CHR ''/'' then k else CHR ''/'' # k)"
  by (cases k) (simp_all add: key_with_slash_def)

text \<open>
  C9. When the load path cannot be resolved, exists returns False. It returns True
  exactly when the load path resolves to a regular file whose store opens and lists
  the key with its leading slash, the slash added to a key that lacks it. An error
  raised by exists is the one raised by opening the store of the resolved file, so it
  is never the error of a failed resolution.
\<close>

theorem exists_false_when_unresolved:
  "(get_load_path self st = Inl e \<longrightarrow> HDFLocalDataSet_exists env self st = Inr False)
   \<and> (HDFLocalDataSet_exists env self st = Inr True
        \<longleftrightarrow> (\<exists>p keys. get_load_path self st = Inr p
               \<and> is_file (files st) (cwd st) p
               \<and> HDFStore_keys env st p = Inr keys
               \<and> key_with_slash (key self) \<in> set keys))
   \<and> (HDFLocalDataSet_exists env self st = Inl e
        \<longrightarrow> (\<exists>p. get_load_path self st = Inr p
               \<and> is_file (files st) (cwd st) p
               \<and> HDFStore_keys env st p = Inl e))
   \<and> key_with_slash k = (if k \<noteq> [] \<and> hd k = CHR ''/'' then k else CHR ''/'' # k)"
proof (intro conjI impI)
  assume "get_load_path self st = Inl e"
  moreover from this have "e = NotFoundError"
    by (rule get_load_path_error)
  ultimately show "HDFLocalDataSet_exists env self st = Inr False"
    by (simp add: HDFLocalDataSet_exists_def NotFoundError_is_DataSetError)
next
  show "HDFLocalDataSet_exists env self st = Inr True
        \<longleftrightarrow> (\<exists>p keys. get_load_path self st = Inr p
               \<and> is_file (files st) (cwd st) p
               \<and> HDFStore_keys env st p = Inr keys
               \<and> key_with_slash (key self) \<in> set keys)"
    by (auto simp: HDFLocalDataSet_exists_def split: sum.splits if_splits)
next
  assume err: "HDFLocalDataSet_exists env self st = Inl e"
  show "\<exists>p. get_load_path self st = Inr p
               \<and> is_file (files st) (cwd st) p
               \<and> HDFStore_keys env st p = Inl e"
  proof (cases "get_load_path self st")
    case (Inl e')
    then have "e' = NotFoundError"
      by (rule get_load_path_error)
    with Inl err show ?thesis
      by (simp add: HDFLocalDataSet_exists_def NotFoundError_is_DataSetError)
  next
    case (Inr p)
    with err show ?thesis
      by (auto simp: HDFLocalDataSet_exists_def split: sum.splits if_splits)
  qed
next
  show "key_with_slash k = (if k \<noteq> [] \<and> hd k = CHR ''/'' then k else CHR ''/'' # k)"
    by (rule key_with_slash_cases)
qed

theorem exists_false_when_unresolved_witness:
  "get_load_path example_ds machine0 = Inl NotFoundError
   \<and> HDFLocalDataSet_exists example_hdf_env example_ds machine0 = Inr False
   \<and> get_load_path pinned_ds machine1 = Inl NotFoundError
   \<and> HDFLocalDataSet_exists example_hdf_env pinned_ds machine1 = Inr False
   \<and> HDFLocalDataSet_exists example_hdf_env example_ds machine1 = Inr True
   \<and> HDFLocalDataSet_exists example_hdf_env example_ds machine2
       = Inl (OSError_of ''OSError'')
   \<and> key_with_slash ''test_hdf_key'' = ''/test_hdf_key''
   \<and> key_with_slash ''/df'' = ''/df''"
proof -
  have 1: "get_load_path example_ds machine0 = Inl NotFoundError"
    by code_simp
  have 2: "get_load_path pinned_ds machine1 = Inl NotFoundError"
    by code_simp
  note t1 = exists_false_when_unresolved
    [of example_ds machine0 NotFoundError example_hdf_env, THEN conjunct1, rule_format, OF 1]
  note t2 = exists_false_when_unresolved
    [of pinned_ds machine1 NotFoundError example_hdf_env, THEN conjunct1, rule_format, OF 2]
  have 3: "HDFLocalDataSet_exists example_hdf_env example_ds machine1 = Inr True"
    by code_simp
  have 4: "HDFLocalDataSet_exists example_hdf_env example_ds machine2
       = Inl (OSError_of ''OSError'')"
    by code_simp
  have 5: "key_with_slash ''test_hdf_key'' = ''/test_hdf_key''"
    "key_with_slash ''/df'' = ''/df''"
    by (simp_all add: key_with_slash_def)
  from 1 t1 2 t2 3 4 5 show ?thesis
    by (intro conjI)
qed

end
